theory Spec2Isabelle
  imports Complex_Main
begin

section \<open>JavaScript strings and characters\<close>

text \<open>
  A JavaScript string is a sequence of UTF-16 code units. The model keeps the code units
  below 256 (the Latin-1 range), one \<^typ>\<open>char\<close> each, so \<open>text.length\<close> is
  \<^term>\<open>length\<close>. The receipt texts the pipeline reads come from an OCR engine
  restricted to an ASCII whitelist.
\<close>

text \<open>The code of a character, and the order of the codes, compared bit by bit from the top.\<close>

definition code :: "char \<Rightarrow> nat" where
  "code c = of_char c"

fun bits_le :: "bool list \<Rightarrow> bool list \<Rightarrow> bool" where
  "bits_le (x # xs) (y # ys) = (if x = y then bits_le xs ys else y)"
| "bits_le xs ys = True"

definition char_le :: "char \<Rightarrow> char \<Rightarrow> bool" where
  "char_le a b =
     bits_le [digit7 a, digit6 a, digit5 a, digit4 a, digit3 a, digit2 a, digit1 a, digit0 a]
             [digit7 b, digit6 b, digit5 b, digit4 b, digit3 b, digit2 b, digit1 b, digit0 b]"

definition in_range :: "char \<Rightarrow> char \<Rightarrow> char \<Rightarrow> bool" where
  "in_range lo hi c = (char_le lo c \<and> char_le c hi)"

definition is_digit :: "char \<Rightarrow> bool" where
  "is_digit c = in_range CHR ''0'' CHR ''9'' c"

definition is_upper :: "char \<Rightarrow> bool" where
  "is_upper c = in_range CHR ''A'' CHR ''Z'' c"

definition is_lower :: "char \<Rightarrow> bool" where
  "is_lower c = in_range CHR ''a'' CHR ''z'' c"

definition is_alnum :: "char \<Rightarrow> bool" where
  "is_alnum c = (is_lower c \<or> is_upper c \<or> is_digit c)"

text \<open>
  The regular-expression class \<open>\s\<close> and \<open>String.prototype.trim\<close> use the same set:
  tab, line feed, vertical tab, form feed, carriage return, space and, below 256, the
  no-break space.
\<close>

definition is_space :: "char \<Rightarrow> bool" where
  "is_space c = (c = CHR 0x09 \<or> c = CHR 0x0A \<or> c = CHR 0x0B \<or> c = CHR 0x0C \<or> c = CHR 0x0D
                 \<or> c = CHR 0x20 \<or> c = CHR 0xA0)"

text \<open>
  \<open>toLowerCase\<close> and \<open>toUpperCase\<close> on one code unit of the Latin-1 range: the
  letters A to Z and the codes 192 to 222 except 215 have lower-case forms 32 higher, which
  is the same code with bit 5 set; upper case clears the bit again.
\<close>

definition lower_char :: "char \<Rightarrow> char" where
  "lower_char c =
     (if is_upper c \<or> (in_range (CHR 0xC0) (CHR 0xDE) c \<and> c \<noteq> CHR 0xD7)
      then Char (digit0 c) (digit1 c) (digit2 c) (digit3 c) (digit4 c) True (digit6 c) (digit7 c)
      else c)"

definition upper_char :: "char \<Rightarrow> char" where
  "upper_char c =
     (if is_lower c \<or> (in_range (CHR 0xE0) (CHR 0xFE) c \<and> c \<noteq> CHR 0xF7)
      then Char (digit0 c) (digit1 c) (digit2 c) (digit3 c) (digit4 c) False (digit6 c) (digit7 c)
      else c)"

definition toLowerCase :: "string \<Rightarrow> string" where
  "toLowerCase s = map lower_char s"

definition trim :: "string \<Rightarrow> string" where
  "trim s = rev (dropWhile is_space (rev (dropWhile is_space s)))"

text \<open>\<open>s.split('\n')\<close>: the pieces between line feeds, always at least one piece.\<close>

fun split_on :: "char \<Rightarrow> string \<Rightarrow> string list" where
  "split_on d [] = [[]]"
| "split_on d (x # xs) =
     (if x = d then [] # split_on d xs
      else (case split_on d xs of [] \<Rightarrow> [[x]] | p # ps \<Rightarrow> (x # p) # ps))"

text \<open>\<open>s.includes(t)\<close>.\<close>

fun str_includes :: "string \<Rightarrow> string \<Rightarrow> bool" where
  "str_includes [] t = (t = [])"
| "str_includes (x # xs) t = (take (length t) (x # xs) = t \<or> str_includes xs t)"

section \<open>Regular expressions\<close>

text \<open>
  The source drives most decisions through regular-expression literals. They are
  embedded as syntax trees and run by a backtracking matcher that returns the matches in
  the order a JavaScript engine tries them: alternatives left to right, greedy
  quantifiers longest first. Only the constructs the source uses are present, and at most
  one capture group per expression.
\<close>

datatype atom = Ch char | Rng char char | Dgt | Spc | Wrd

datatype re =
    One "atom list"
  | NoneOf "atom list"
  | Seq re re
  | Alt re re
  | Star re
  | Opt re
  | Grp re
  | Bol
  | Eol

text \<open>
  Under the \<open>i\<close> flag two characters match when their upper-case forms agree; the
  escapes \<open>\d\<close>, \<open>\s\<close> and \<open>\w\<close> are not affected.
\<close>

fun atom_ok :: "bool \<Rightarrow> atom \<Rightarrow> char \<Rightarrow> bool" where
  "atom_ok ic (Ch d) c = (c = d \<or> (ic \<and> upper_char c = upper_char d))"
| "atom_ok ic (Rng lo hi) c =
     (in_range lo hi c \<or> (ic \<and> (in_range lo hi (upper_char c) \<or> in_range lo hi (lower_char c))))"
| "atom_ok ic Dgt c = is_digit c"
| "atom_ok ic Spc c = is_space c"
| "atom_ok ic Wrd c = (is_alnum c \<or> c = CHR ''_'')"

definition class_ok :: "bool \<Rightarrow> atom list \<Rightarrow> char \<Rightarrow> bool" where
  "class_ok ic as c = list_ex (\<lambda>a. atom_ok ic a c) as"

text \<open>
  A matcher state: whether the position is the start of the input (for \<open>^\<close>), the
  input still to read, and the text of the capture group.
\<close>

type_synonym mstate = "bool \<times> string \<times> string option"

fun ms :: "bool \<Rightarrow> re \<Rightarrow> mstate \<Rightarrow> mstate list" where
  "ms ic (One as) (b, s, c) =
     (case s of [] \<Rightarrow> [] | x # xs \<Rightarrow> if class_ok ic as x then [(False, xs, c)] else [])"
| "ms ic (NoneOf as) (b, s, c) =
     (case s of [] \<Rightarrow> [] | x # xs \<Rightarrow> if class_ok ic as x then [] else [(False, xs, c)])"
| "ms ic (Seq r1 r2) st = concat (map (ms ic r2) (ms ic r1 st))"
| "ms ic (Alt r1 r2) st = ms ic r1 st @ ms ic r2 st"
| "ms ic (Star r) (b, s, c) =
     concat (map (\<lambda>st'. if length (fst (snd st')) < length s then ms ic (Star r) st' else [])
                 (ms ic r (b, s, c)))
     @ [(b, s, c)]"
| "ms ic (Opt r) st = ms ic r st @ [st]"
| "ms ic (Grp r) (b, s, c) =
     map (\<lambda>st'. (fst st', fst (snd st'), Some (take (length s - length (fst (snd st'))) s)))
         (ms ic r (b, s, c))"
| "ms ic Bol (b, s, c) = (if b then [(b, s, c)] else [])"
| "ms ic Eol (b, s, c) = (if s = [] then [(b, s, c)] else [])"

text \<open>Derived forms: \<open>r+\<close>, \<open>r{n}\<close>, \<open>r{lo,hi}\<close>, a literal word, a chain.\<close>

definition Plus :: "re \<Rightarrow> re" where
  "Plus r = Seq r (Star r)"

fun Times :: "nat \<Rightarrow> re \<Rightarrow> re" where
  "Times 0 r = Opt (One [])"
| "Times (Suc 0) r = r"
| "Times (Suc n) r = Seq r (Times n r)"

fun UpTo :: "nat \<Rightarrow> re \<Rightarrow> re" where
  "UpTo 0 r = Opt (One [])"
| "UpTo (Suc 0) r = Opt r"
| "UpTo (Suc n) r = Opt (Seq r (UpTo n r))"

definition Rep :: "nat \<Rightarrow> nat \<Rightarrow> re \<Rightarrow> re" where
  "Rep lo hi r = (if lo = 0 then UpTo hi r else if hi = lo then Times lo r
                  else Seq (Times lo r) (UpTo (hi - lo) r))"

fun Word :: "string \<Rightarrow> re" where
  "Word [] = Opt (One [])"
| "Word [x] = One [Ch x]"
| "Word (x # xs) = Seq (One [Ch x]) (Word xs)"

fun Seqs :: "re list \<Rightarrow> re" where
  "Seqs [] = Opt (One [])"
| "Seqs [r] = r"
| "Seqs (r # rs) = Seq r (Seqs rs)"

fun Alts :: "re list \<Rightarrow> re" where
  "Alts [] = One []"
| "Alts [r] = r"
| "Alts (r # rs) = Alt r (Alts rs)"

text \<open>
  \<open>RegExp.prototype.exec\<close> from the start of a string: the first start position at
  which the expression matches, and there the first match in the engine's order. The
  result is the capture group, the matched text and the input after the match.
\<close>

fun search :: "bool \<Rightarrow> re \<Rightarrow> bool \<Rightarrow> string \<Rightarrow> (string option \<times> string \<times> string) option" where
  "search ic r b [] =
     (case ms ic r (b, [], None) of
        [] \<Rightarrow> None
      | st # _ \<Rightarrow> Some (snd (snd st), [], []))"
| "search ic r b (x # xs) =
     (case ms ic r (b, x # xs, None) of
        [] \<Rightarrow> search ic r False xs
      | st # _ \<Rightarrow>
          Some (snd (snd st), take (length (x # xs) - length (fst (snd st))) (x # xs), fst (snd st)))"

definition test :: "bool \<Rightarrow> re \<Rightarrow> string \<Rightarrow> bool" where
  "test ic r s = (search ic r True s \<noteq> None)"

text \<open>\<open>s.match(r)\<close> without the \<open>g\<close> flag, reduced to the capture group.\<close>

definition match1 :: "bool \<Rightarrow> re \<Rightarrow> string \<Rightarrow> string option option" where
  "match1 ic r s = map_option fst (search ic r True s)"

text \<open>
  The matches of an expression with the \<open>g\<close> flag (\<open>s.match(r)\<close>, \<open>s.matchAll(r)\<close>):
  each search starts where the last match ended, one character further after an empty
  match. The result lists the capture group of every match.
\<close>

function match_all :: "bool \<Rightarrow> re \<Rightarrow> bool \<Rightarrow> string \<Rightarrow> string option list" where
  "match_all ic r b s =
     (case search ic r b s of
        None \<Rightarrow> []
      | Some m \<Rightarrow>
          fst m # (if length (if fst (snd m) = [] then drop 1 (snd (snd m)) else snd (snd m)) < length s
                   then match_all ic r False (if fst (snd m) = [] then drop 1 (snd (snd m)) else snd (snd m))
                   else []))"
  by pat_completeness auto
termination
  by (relation "measure (\<lambda>(ic, r, b, s). length s)") auto

declare match_all.simps [simp del]

text \<open>
  \<open>s.split(r)\<close> for an expression without capture group: at each position the
  expression is tried there only; a match that ends where the current piece starts is
  skipped, any other match closes the piece.
\<close>

function split_from :: "bool \<Rightarrow> re \<Rightarrow> string \<Rightarrow> bool \<Rightarrow> string \<Rightarrow> string list" where
  "split_from ic r cur b [] = [rev cur]"
| "split_from ic r cur b (x # xs) =
     (case ms ic r (b, x # xs, None) of
        [] \<Rightarrow> split_from ic r (x # cur) False xs
      | st # _ \<Rightarrow>
          if length (fst (snd st)) < length (x # xs)
          then rev cur # split_from ic r [] False (fst (snd st))
          else if cur = [] then split_from ic r [x] False xs
          else rev cur # split_from ic r [x] False xs)"
  by pat_completeness auto
termination
  by (relation "measure (\<lambda>(ic, r, cur, b, s). length s)") auto

definition js_split :: "bool \<Rightarrow> re \<Rightarrow> string \<Rightarrow> string list" where
  "js_split ic r s =
     (if s = [] then (if ms ic r (True, [], None) = [] then [[]] else [])
      else split_from ic r [] True s)"

section \<open>Numbers and values\<close>

text \<open>
  A JavaScript number is a double. The model keeps the exact rational a finite double
  stands for, and the three special values. \<open>null\<close> and \<open>undefined\<close> are one value
  here: the source never tells them apart (it tests \<open>!== null && !== undefined\<close>, or
  truthiness).
\<close>

datatype jsnum = NaN | PosInf | NegInf | Fin rat

datatype jsval = Absent | Num jsnum | Str string

fun truthy :: "jsval \<Rightarrow> bool" where
  "truthy Absent = False"
| "truthy (Num NaN) = False"
| "truthy (Num (Fin x)) = (x \<noteq> 0)"
| "truthy (Num _) = True"
| "truthy (Str s) = (s \<noteq> [])"

text \<open>\<open>x <= 0\<close> and \<open>x > 10000\<close> on a number; every comparison with NaN is false.\<close>

fun num_le :: "jsnum \<Rightarrow> rat \<Rightarrow> bool" where
  "num_le NaN k = False"
| "num_le PosInf k = False"
| "num_le NegInf k = True"
| "num_le (Fin x) k = (x \<le> k)"

fun num_gt :: "jsnum \<Rightarrow> rat \<Rightarrow> bool" where
  "num_gt NaN k = False"
| "num_gt PosInf k = True"
| "num_gt NegInf k = False"
| "num_gt (Fin x) k = (x > k)"

text \<open>\<open>Math.round(x * 100) / 100\<close>: \<open>Math.round\<close> rounds half up.\<close>

definition round2 :: "rat \<Rightarrow> rat" where
  "round2 x = of_int \<lfloor>x * 100 + 1 / 2\<rfloor> / 100"

text \<open>The value of a decimal digit, and of a run of digits read from the left.\<close>

fun index_of :: "char \<Rightarrow> string \<Rightarrow> int" where
  "index_of c [] = 0"
| "index_of c (x # xs) = (if c = x then 0 else 1 + index_of c xs)"

definition digit_val :: "char \<Rightarrow> int" where
  "digit_val c = index_of c ''0123456789''"

fun dec_val :: "int \<Rightarrow> string \<Rightarrow> int" where
  "dec_val acc [] = acc"
| "dec_val acc (c # cs) = dec_val (10 * acc + digit_val c) cs"

definition exponent :: "string \<Rightarrow> int" where
  "exponent r =
     (case r of
        [] \<Rightarrow> 0
      | c # r' \<Rightarrow>
          if c = CHR ''e'' \<or> c = CHR ''E'' then
            (case r' of
               [] \<Rightarrow> 0
             | d # r'' \<Rightarrow>
                 if d = CHR ''-'' then - dec_val 0 (takeWhile is_digit r'')
                 else if d = CHR ''+'' then dec_val 0 (takeWhile is_digit r'')
                 else dec_val 0 (takeWhile is_digit r'))
          else 0)"

definition scale10 :: "rat \<Rightarrow> int \<Rightarrow> rat" where
  "scale10 m e = (if 0 \<le> e then m * 10 ^ nat e else m / 10 ^ nat (- e))"

text \<open>
  \<open>parseFloat\<close>: leading white space is skipped, then the longest prefix that is a
  decimal literal (sign, digits, fraction, exponent, or \<open>Infinity\<close>) is read; NaN when
  there is none.
\<close>

definition parseFloat :: "string \<Rightarrow> jsnum" where
  "parseFloat s =
     (let t = dropWhile is_space s;
          neg = (take 1 t = ''-'');
          u = (if take 1 t = ''-'' \<or> take 1 t = ''+'' then drop 1 t else t);
          ip = takeWhile is_digit u;
          r1 = dropWhile is_digit u;
          fp = (if take 1 r1 = ''.'' then takeWhile is_digit (drop 1 r1) else []);
          r2 = (if take 1 r1 = ''.'' then dropWhile is_digit (drop 1 r1) else r1);
          m = of_int (dec_val 0 (ip @ fp)) / 10 ^ length fp
      in if take 8 u = ''Infinity'' then (if neg then NegInf else PosInf)
         else if ip = [] \<and> fp = [] then NaN
         else Fin (scale10 (if neg then - m else m) (exponent r2)))"

section \<open>Extracted fields\<close>

record item =
  description :: string
  price :: rat
  quantity :: nat

record extracted =
  vendor :: "string option"
  date :: "string option"
  amount :: jsval
  confidence :: rat
  items :: "item list"
  rawText :: "string option"

section \<open>Extraction validator (validateAndCleanExtractedData)\<close>

text \<open>\<open>/^\d{4}-\d{2}-\d{2}$/\<close>\<close>

definition isoDateRe :: re where
  "isoDateRe = Seqs [Bol, Times 4 (One [Dgt]), One [Ch CHR ''-''], Times 2 (One [Dgt]),
                     One [Ch CHR ''-''], Times 2 (One [Dgt]), Eol]"

text \<open>
  The vendor block runs when \<open>data.vendor\<close> is a non-empty string: trim, then null when
  shorter than 2 or equal to "null" or "unknown" in lower case.
\<close>

definition cleanVendor :: "string option \<Rightarrow> string option" where
  "cleanVendor v =
     (case v of
        None \<Rightarrow> None
      | Some s \<Rightarrow>
          if s = [] then Some s
          else if length (trim s) < 2 then None
          else if toLowerCase (trim s) = ''null'' \<or> toLowerCase (trim s) = ''unknown'' then None
          else Some (trim s))"

text \<open>
  The date block runs when \<open>data.date\<close> is a non-empty string. \<open>dateParses s\<close> stands
  for \<open>!isNaN(new Date(s).getTime())\<close>, the runtime's date parser.
\<close>

definition cleanDate :: "(string \<Rightarrow> bool) \<Rightarrow> string option \<Rightarrow> string option" where
  "cleanDate dateParses d =
     (case d of
        None \<Rightarrow> None
      | Some s \<Rightarrow>
          if s = [] then Some s
          else if \<not> test False isoDateRe s then None
          else if \<not> dateParses s then None
          else Some s)"

definition cleanAmount :: "jsval \<Rightarrow> jsval" where
  "cleanAmount a =
     (case a of
        Absent \<Rightarrow> Absent
      | _ \<Rightarrow>
          (let n = (case a of Str s \<Rightarrow> parseFloat s | Num k \<Rightarrow> k | Absent \<Rightarrow> NaN)
           in if n = NaN then Absent
              else if num_le n 0 then Absent
              else if num_gt n 10000 then Absent
              else (case n of Fin x \<Rightarrow> Num (Fin (round2 x)) | _ \<Rightarrow> Absent)))"

text \<open>Truthiness of a field that is a string or null.\<close>

definition present :: "string option \<Rightarrow> bool" where
  "present v = (case v of None \<Rightarrow> False | Some s \<Rightarrow> s \<noteq> [])"

definition validateAndCleanExtractedData :: "(string \<Rightarrow> bool) \<Rightarrow> extracted \<Rightarrow> extracted" where
  "validateAndCleanExtractedData dateParses data =
     (let v = cleanVendor (vendor data);
          d = cleanDate dateParses (date data);
          a = cleanAmount (amount data);
          c0 = 1 / 2;
          c1 = (if truthy a then c0 + 3 / 10 else c0);
          c2 = (if present v then c1 + 2 / 10 else c1);
          c3 = (if present d then c2 + 1 / 10 else c2)
      in data\<lparr>vendor := v, date := d, amount := a, confidence := c3\<rparr>)"

section \<open>Runtime and storage collaborators\<close>

text \<open>
  What the code takes from the JavaScript runtime: the current day
  (\<open>new Date().toISOString().split('T')[0]\<close>), and the date parser \<open>new Date(s)\<close>,
  which gives nothing for an invalid date and otherwise the local year, month and day
  (\<open>getFullYear\<close>, \<open>getMonth() + 1\<close>, \<open>getDate\<close>) and the day part of
  \<open>toISOString()\<close>; \<open>toNumber\<close> is the coercion of a string in a comparison.
\<close>

record runtime =
  today :: string
  newDate :: "string \<Rightarrow> ((int \<times> int \<times> int) \<times> string) option"
  toNumber :: "string \<Rightarrow> jsnum"

definition dateParses :: "runtime \<Rightarrow> string \<Rightarrow> bool" where
  "dateParses rt s = (newDate rt s \<noteq> None)"

text \<open>
  The store: the receipts table by id, the expenses and categories tables as lists of
  rows, and the statements that throw when run (a persistence error).
\<close>

datatype stmt = UpdateStatus | UpdateReceipt | InsertExpense | SelectExpense
  | SelectCategory | InsertCategory

datatype status = pending | processing | completed | failed

record receipt =
  status :: status
  ocr_text :: "string option"
  extracted_data :: "extracted option"
  processed_path :: "string option"

record expense =
  exp_id :: string
  exp_amount :: jsval
  exp_description :: string
  exp_category :: string
  exp_date :: string
  exp_vendor :: string
  exp_tags :: "string list"
  exp_receipt_id :: string

record category =
  cat_id :: string
  cat_name :: string
  cat_color :: string
  cat_icon :: string
  cat_type :: string

record db =
  receipts :: "string \<Rightarrow> receipt option"
  expenses :: "expense list"
  categories :: "category list"
  broken :: "stmt \<Rightarrow> bool"

text \<open>An \<open>UPDATE ... WHERE id = ?\<close> changes the row when there is one.\<close>

definition updateStatus :: "status \<Rightarrow> string \<Rightarrow> db \<Rightarrow> db" where
  "updateStatus st rid d =
     (case receipts d rid of
        None \<Rightarrow> d
      | Some r \<Rightarrow> d\<lparr>receipts := (receipts d)(rid := Some (r\<lparr>status := st\<rparr>))\<rparr>)"

definition updateReceipt :: "string \<Rightarrow> extracted \<Rightarrow> string \<Rightarrow> string \<Rightarrow> db \<Rightarrow> db" where
  "updateReceipt text data path rid d =
     (case receipts d rid of
        None \<Rightarrow> d
      | Some r \<Rightarrow>
          d\<lparr>receipts := (receipts d)(rid := Some (r\<lparr>status := completed, ocr_text := Some text,
                 extracted_data := Some data, processed_path := Some path\<rparr>))\<rparr>)"

section \<open>Expense materializer, desktop variant (createExpenseFromExtractedData)\<close>

definition vendorCategoryMap :: "(string \<times> string \<times> string \<times> string) list" where
  "vendorCategoryMap =
     [(''walmart'', ''Groceries'', ''#28a745'', ''G''),
      (''target'', ''Retail'', ''#dc3545'', ''R''),
      (''kroger'', ''Groceries'', ''#28a745'', ''G''),
      (''starbucks'', ''Coffee & Dining'', ''#fd7e14'', ''C''),
      (''mcdonalds'', ''Restaurants'', ''#fd7e14'', ''R''),
      (''shell'', ''Gas & Fuel'', ''#ffc107'', ''F''),
      (''exxon'', ''Gas & Fuel'', ''#ffc107'', ''F''),
      (''amazon'', ''Online Shopping'', ''#ff9900'', ''O''),
      (''uber'', ''Transportation'', ''#6f42c1'', ''T''),
      (''doordash'', ''Food Delivery'', ''#dc3545'', ''D'')]"

text \<open>
  \<open>getOrCreateCategory\<close>: exact key, then the first key contained in the vendor name,
  then "Other"; the category row is looked up by name and inserted under a new id when
  missing. A statement that throws gives \<open>Inl\<close>.
\<close>

definition getOrCreateCategory :: "string \<Rightarrow> string \<Rightarrow> db \<Rightarrow> stmt + (string \<times> db)" where
  "getOrCreateCategory newId vendorName d =
     (let v = toLowerCase vendorName;
          categoryData =
            (case map_of vendorCategoryMap v of
               Some cd \<Rightarrow> cd
             | None \<Rightarrow>
                 (case find (\<lambda>e. str_includes v (fst e)) vendorCategoryMap of
                    Some e \<Rightarrow> snd e
                  | None \<Rightarrow> (''Other'', ''#6c757d'', ''O'')))
      in if broken d SelectCategory then Inl SelectCategory
         else (case find (\<lambda>c. cat_name c = fst categoryData) (categories d) of
                 Some c \<Rightarrow> Inr (cat_id c, d)
               | None \<Rightarrow>
                   if broken d InsertCategory then Inl InsertCategory
                   else Inr (newId,
                          d\<lparr>categories := categories d @
                             [\<lparr>cat_id = newId, cat_name = fst categoryData,
                               cat_color = fst (snd categoryData),
                               cat_icon = snd (snd categoryData),
                               cat_type = ''traditional''\<rparr>]\<rparr>)))"

text \<open>Decimal text of a number, for \<open>`${year}-${month}-${day}`\<close> and \<open>padStart(2, '0')\<close>.\<close>

function show_nat :: "int \<Rightarrow> string" where
  "show_nat n =
     (if n < 10 then [''0123456789'' ! nat n]
      else show_nat (n div 10) @ [''0123456789'' ! nat (n mod 10)])"
  by pat_completeness auto
termination
  by (relation "measure nat") auto

declare show_nat.simps [simp del]

definition show_int :: "int \<Rightarrow> string" where
  "show_int i = (if i < 0 then CHR ''-'' # show_nat (- i) else show_nat i)"

definition pad2 :: "string \<Rightarrow> string" where
  "pad2 s = (if length s < 2 then replicate (2 - length s) CHR ''0'' @ s else s)"

definition ymd :: "int \<times> int \<times> int \<Rightarrow> string" where
  "ymd t = show_int (fst t) @ ''-'' @ pad2 (show_nat (fst (snd t))) @ ''-'' @ pad2 (show_nat (snd (snd t)))"

definition formatDate :: "runtime \<Rightarrow> string \<Rightarrow> string" where
  "formatDate rt dateString =
     (if test False isoDateRe dateString then dateString
      else (case newDate rt dateString of
              Some p \<Rightarrow> ymd (fst p)
            | None \<Rightarrow> today rt))"

text \<open>
  \<open>/^order\s*details?$/i\<close>, \<open>/^ship\s*to$/i\<close>, \<open>/^bill\s*to$/i\<close>, \<open>/^invoice$/i\<close>,
  \<open>/^receipt$/i\<close>, \<open>/^thank\s*you$/i\<close>, \<open>/^customer\s*copy$/i\<close>, \<open>/^page\s*\d+$/i\<close>
\<close>

definition invalidVendorPatterns :: "re list" where
  "invalidVendorPatterns =
     [Seqs [Bol, Word ''order'', Star (One [Spc]), Word ''detail'', Opt (One [Ch CHR ''s'']), Eol],
      Seqs [Bol, Word ''ship'', Star (One [Spc]), Word ''to'', Eol],
      Seqs [Bol, Word ''bill'', Star (One [Spc]), Word ''to'', Eol],
      Seqs [Bol, Word ''invoice'', Eol],
      Seqs [Bol, Word ''receipt'', Eol],
      Seqs [Bol, Word ''thank'', Star (One [Spc]), Word ''you'', Eol],
      Seqs [Bol, Word ''customer'', Star (One [Spc]), Word ''copy'', Eol],
      Seqs [Bol, Word ''page'', Star (One [Spc]), Plus (One [Dgt]), Eol]]"

text \<open>\<open>!amount || amount <= 0\<close>\<close>

definition noValidAmount :: "runtime \<Rightarrow> jsval \<Rightarrow> bool" where
  "noValidAmount rt a =
     (if truthy a
      then (case a of Num n \<Rightarrow> num_le n 0 | Str s \<Rightarrow> num_le (toNumber rt s) 0 | Absent \<Rightarrow> True)
      else True)"

text \<open>
  The whole body is inside \<open>try\<close>; the \<open>catch\<close> logs and returns null. The result is
  the row read back (null when nothing was created or an error was caught) and the store
  as the statements that ran left it.
\<close>

definition createExpenseFromExtractedData ::
  "runtime \<Rightarrow> string \<Rightarrow> string \<Rightarrow> extracted \<Rightarrow> string \<Rightarrow> db \<Rightarrow> expense option \<times> db" where
  "createExpenseFromExtractedData rt expenseId newCategoryId extractedData receiptId d =
     (if noValidAmount rt (amount extractedData) then (None, d)
      else
        (let description =
               (if present (vendor extractedData)
                then ''Purchase at '' @ the (vendor extractedData) else ''Receipt purchase'')
         in case getOrCreateCategory newCategoryId
                   (if present (vendor extractedData) then the (vendor extractedData) else ''Other'') d of
              Inl e \<Rightarrow> (None, d)
            | Inr cd \<Rightarrow>
                (let categoryId = fst cd;
                     d1 = snd cd;
                     expenseDate =
                       (if present (date extractedData)
                        then formatDate rt (the (date extractedData)) else today rt);
                     vendor0 =
                       (if present (vendor extractedData) then the (vendor extractedData) else ''Unknown'');
                     vendorForDb =
                       (if vendor0 = ''Unknown'' then vendor0
                        else if list_ex (\<lambda>p. test True p vendor0) invalidVendorPatterns
                        then ''Unknown'' else vendor0);
                     row = \<lparr>exp_id = expenseId, exp_amount = amount extractedData,
                            exp_description = description, exp_category = categoryId,
                            exp_date = expenseDate, exp_vendor = vendorForDb,
                            exp_tags = [''receipt-import'', ''auto-created''],
                            exp_receipt_id = receiptId\<rparr>
                 in if broken d1 InsertExpense then (None, d1)
                    else if broken d1 SelectExpense
                    then (None, d1\<lparr>expenses := expenses d1 @ [row]\<rparr>)
                    else (Some row, d1\<lparr>expenses := expenses d1 @ [row]\<rparr>))))"

section \<open>Expense materializer, server variant\<close>

text \<open>
  \<open>formatDate\<close> of the server: \<open>-\<close> and \<open>/\<close> become \<open>/\<close>, the result is parsed, and
  the day part of \<open>toISOString()\<close> is returned, today's when the date is invalid.
\<close>

definition formatDate_server :: "runtime \<Rightarrow> string \<Rightarrow> string" where
  "formatDate_server rt dateString =
     (case newDate rt (map (\<lambda>c. if c = CHR ''-'' \<or> c = CHR ''/'' then CHR ''/'' else c) dateString) of
        Some p \<Rightarrow> snd p
      | None \<Rightarrow> today rt)"

text \<open>
  The server's \<open>categorizePurchase\<close> maps the vendor through two tables of
  \<open>database.ts\<close> and looks the category up or inserts it; it is a collaborator here,
  a function of the vendor and the store that returns the category id or throws.
  The function returns nothing; the result is the store.
\<close>

definition createExpenseFromExtractedData_server ::
  "runtime \<Rightarrow> (string \<Rightarrow> db \<Rightarrow> stmt + (string \<times> db)) \<Rightarrow> string \<Rightarrow> extracted \<Rightarrow> string \<Rightarrow> db \<Rightarrow> db" where
  "createExpenseFromExtractedData_server rt categorizePurchase expenseId extractedData receiptId d =
     (if noValidAmount rt (amount extractedData) then d
      else
        (let description =
               (if present (vendor extractedData)
                then ''Purchase at '' @ the (vendor extractedData) else ''Receipt purchase'')
         in case categorizePurchase
                   (if present (vendor extractedData) then the (vendor extractedData) else []) d of
              Inl e \<Rightarrow> d
            | Inr cd \<Rightarrow>
                (let smartCategory = fst cd;
                     d1 = snd cd;
                     expenseDate =
                       (if present (date extractedData)
                        then formatDate_server rt (the (date extractedData)) else today rt);
                     row = \<lparr>exp_id = expenseId, exp_amount = amount extractedData,
                            exp_description = description, exp_category = smartCategory,
                            exp_date = expenseDate,
                            exp_vendor = (if present (vendor extractedData)
                                          then the (vendor extractedData) else ''Unknown''),
                            exp_tags = [''receipt-import'', ''auto-created''],
                            exp_receipt_id = receiptId\<rparr>
                 in if broken d1 InsertExpense then d1
                    else d1\<lparr>expenses := expenses d1 @ [row]\<rparr>)))"

text \<open>
  A date parser for the worked examples: it accepts the text \<open>YYYY-MM-DD\<close> with a
  month 01..12 and a day 01..31 and nothing else, and reads the fields off the text.
\<close>

definition sampleNewDate :: "string \<Rightarrow> ((int \<times> int \<times> int) \<times> string) option" where
  "sampleNewDate s =
     (if test False isoDateRe s
         \<and> 1 \<le> dec_val 0 (take 2 (drop 5 s)) \<and> dec_val 0 (take 2 (drop 5 s)) \<le> 12
         \<and> 1 \<le> dec_val 0 (take 2 (drop 8 s)) \<and> dec_val 0 (take 2 (drop 8 s)) \<le> 31
      then Some ((dec_val 0 (take 4 s), dec_val 0 (take 2 (drop 5 s)), dec_val 0 (take 2 (drop 8 s))), s)
      else None)"

definition sampleRuntime :: runtime where
  "sampleRuntime = \<lparr>today = ''2026-01-01'', newDate = sampleNewDate, toNumber = parseFloat\<rparr>"

definition emptyDb :: db where
  "emptyDb = \<lparr>receipts = (\<lambda>i. None), expenses = [], categories = [], broken = (\<lambda>s. False)\<rparr>"

text \<open>Two extraction results for the worked examples.\<close>

definition amountOnly :: extracted where
  "amountOnly = \<lparr>vendor = None, date = None, amount = Num (Fin (23 / 4)),
                  confidence = 4 / 5, items = [], rawText = None\<rparr>"

definition noAmount :: extracted where
  "noAmount = \<lparr>vendor = Some ''Walmart'', date = Some ''2024-01-15'', amount = Absent,
                confidence = 4 / 5, items = [], rawText = None\<rparr>"

text \<open>A category collaborator for the worked examples: every vendor is in category "c1".\<close>

definition oneCategory :: "string \<Rightarrow> db \<Rightarrow> stmt + (string \<times> db)" where
  "oneCategory v d = Inr (''c1'', d)"

section \<open>OCR quality gate (validateOCRQuality)\<close>

text \<open>\<open>n / d\<close> on two lengths: \<open>0 / 0\<close> is NaN.\<close>

definition js_div :: "nat \<Rightarrow> nat \<Rightarrow> jsnum" where
  "js_div n d = (if d = 0 then (if n = 0 then NaN else PosInf) else Fin (of_nat n / of_nat d))"

fun num_lt :: "jsnum \<Rightarrow> rat \<Rightarrow> bool" where
  "num_lt NaN k = False"
| "num_lt PosInf k = False"
| "num_lt NegInf k = True"
| "num_lt (Fin x) k = (x < k)"

text \<open>\<open>/[^a-zA-Z0-9\s$.,:/\-]/g\<close>, \<open>/\s+/\<close> and \<open>/^[a-zA-Z0-9$.,:/\-]+$/\<close>\<close>

definition specialCharRe :: re where
  "specialCharRe = NoneOf [Rng CHR ''a'' CHR ''z'', Rng CHR ''A'' CHR ''Z'', Rng CHR ''0'' CHR ''9'', Spc,
                           Ch CHR ''$'', Ch CHR ''.'', Ch CHR '','', Ch CHR '':'', Ch CHR ''/'', Ch CHR ''-'']"

definition spacesRe :: re where
  "spacesRe = Plus (One [Spc])"

definition validWordRe :: re where
  "validWordRe = Seqs [Bol,
     Plus (One [Rng CHR ''a'' CHR ''z'', Rng CHR ''A'' CHR ''Z'', Rng CHR ''0'' CHR ''9'',
                Ch CHR ''$'', Ch CHR ''.'', Ch CHR '','', Ch CHR '':'', Ch CHR ''/'', Ch CHR ''-'']),
     Eol]"

record quality =
  score :: int
  issues :: "string list"

text \<open>\<open>text.split('\n').filter(l => l.trim().length > 0)\<close>\<close>

definition nonBlankLines :: "string \<Rightarrow> string list" where
  "nonBlankLines text = filter (\<lambda>l. length (trim l) > 0) (split_on (CHR 0x0A) text)"

definition validateOCRQuality :: "string \<Rightarrow> quality" where
  "validateOCRQuality text =
     (let q0 = \<lparr>score = 10, issues = []\<rparr>;
          q1 = (if length text < 20
                then \<lparr>score = score q0 - 3, issues = issues q0 @ [''Text too short'']\<rparr> else q0);
          specialCharRatio = js_div (length (match_all False specialCharRe True text)) (length text);
          q2 = (if num_gt specialCharRatio (3 / 10)
                then \<lparr>score = score q1 - 4, issues = issues q1 @ [''Too many special characters'']\<rparr>
                else q1);
          words = filter (\<lambda>w. length w > 0) (js_split False spacesRe text);
          validWords = filter (\<lambda>w. test False validWordRe w) words;
          wordRatio = js_div (length validWords) (length words);
          q3 = (if num_lt wordRatio (6 / 10)
                then \<lparr>score = score q2 - 2, issues = issues q2 @ [''Low valid word ratio'']\<rparr> else q2);
          lines = nonBlankLines text;
          q4 = (if length lines < 3
                then \<lparr>score = score q3 - 1, issues = issues q3 @ [''Too few lines detected'']\<rparr> else q3)
      in \<lparr>score = max 0 (score q4), issues = issues q4\<rparr>)"

text \<open>
  The image branch of the server's \<open>processReceipt\<close>: OCR, the quality gate, and one
  more OCR run in retry mode when the score is below 5, whose text is kept when it scores
  higher. \<open>performEnhancedOCR\<close> is the collaborator, called with the retry flag; it
  returns the text or throws. The result comes with the flags of the calls made.
\<close>

definition readImageText :: "(bool \<Rightarrow> string + string) \<Rightarrow> (string + string) \<times> bool list" where
  "readImageText performEnhancedOCR =
     (case performEnhancedOCR False of
        Inl e \<Rightarrow> (Inl e, [False])
      | Inr ocrText \<Rightarrow>
          if score (validateOCRQuality ocrText) < 5
          then (case performEnhancedOCR True of
                  Inl e \<Rightarrow> (Inl e, [False, True])
                | Inr retryText \<Rightarrow>
                    (Inr (if score (validateOCRQuality retryText) > score (validateOCRQuality ocrText)
                          then retryText else ocrText),
                     [False, True]))
          else (Inr ocrText, [False]))"

text \<open>An OCR collaborator for the worked examples: it reads nothing, in either mode.\<close>

definition blankOCR :: "bool \<Rightarrow> string + string" where
  "blankOCR retryMode = Inr []"

text \<open>Texts for the worked examples; \<open>joinLines\<close> puts a line feed between the lines.\<close>

fun joinLines :: "string list \<Rightarrow> string" where
  "joinLines [] = []"
| "joinLines [l] = l"
| "joinLines (l # ls) = l @ [CHR 0x0A] @ joinLines ls"

definition sampleReceipt :: string where
  "sampleReceipt = joinLines [''WALMART SUPERCENTER'', ''01/15/2024'', ''MILK 3.50'', ''BREAD 2.25'',
                              ''TOTAL: $5.75'']"

section \<open>Heuristic extraction of the amount (extractReceiptData)\<close>

text \<open>
  \<open>/\$\s*(\d{1,4}(?:,\d{3})*(?:\.\d{2})?)/g\<close>,
  \<open>/(?:total|amount\s+due|subtotal|balance\s+due|grand\s+total)[\s:]*\$?\s*(\d{1,4}(?:,\d{3})*(?:\.\d{2})?)/i\<close>,
  \<open>/(\d{1,2}[-\/]\d{1,2}[-\/](?:\d{2}|\d{4}))/g\<close> and
  \<open>/^(thank you|visit|www|http|store #|receipt #|transaction|card #|auth #|ref #|shipping|contact|email|phone)/\<close>
\<close>

definition moneyDigits :: re where
  "moneyDigits = Seqs [Rep 1 4 (One [Dgt]),
                       Star (Seq (One [Ch CHR '','']) (Times 3 (One [Dgt]))),
                       Opt (Seq (One [Ch CHR ''.'']) (Times 2 (One [Dgt])))]"

definition moneyRegex :: re where
  "moneyRegex = Seqs [One [Ch CHR ''$''], Star (One [Spc]), Grp moneyDigits]"

definition totalRegex :: re where
  "totalRegex =
     Seqs [Alts [Word ''total'',
                 Seqs [Word ''amount'', Plus (One [Spc]), Word ''due''],
                 Word ''subtotal'',
                 Seqs [Word ''balance'', Plus (One [Spc]), Word ''due''],
                 Seqs [Word ''grand'', Plus (One [Spc]), Word ''total'']],
           Star (One [Spc, Ch CHR '':'']),
           Opt (One [Ch CHR ''$'']),
           Star (One [Spc]),
           Grp moneyDigits]"

definition dateRegex :: re where
  "dateRegex =
     Grp (Seqs [Rep 1 2 (One [Dgt]), One [Ch CHR ''-'', Ch CHR ''/''],
                Rep 1 2 (One [Dgt]), One [Ch CHR ''-'', Ch CHR ''/''],
                Alt (Times 2 (One [Dgt])) (Times 4 (One [Dgt]))])"

definition skipRegex :: re where
  "skipRegex =
     Seq Bol (Grp (Alts [Word ''thank you'', Word ''visit'', Word ''www'', Word ''http'',
                         Word ''store #'', Word ''receipt #'', Word ''transaction'', Word ''card #'',
                         Word ''auth #'', Word ''ref #'', Word ''shipping'', Word ''contact'',
                         Word ''email'', Word ''phone'']))"

text \<open>\<open>s.replace(/,/g, '')\<close>\<close>

definition removeCommas :: "string \<Rightarrow> string" where
  "removeCommas s = filter (\<lambda>c. c \<noteq> CHR '','') s"

record priceEntry =
  price_of :: rat
  line_of :: string
  isLikelyTotal :: bool

record scan =
  allPrices :: "priceEntry list"
  dates :: "string list"
  explicitTotal :: "rat option"

text \<open>\<open>price > 0 && price < 10000\<close> on the result of \<open>parseFloat\<close>.\<close>

definition reasonable :: "jsnum \<Rightarrow> rat option" where
  "reasonable n = (case n of Fin x \<Rightarrow> if 0 < x \<and> x < 10000 then Some x else None | _ \<Rightarrow> None)"

text \<open>The body of the loop over the lines: the skip test, the total label, the amounts, the dates.\<close>

definition scanLine :: "scan \<Rightarrow> string \<Rightarrow> scan" where
  "scanLine acc line =
     (let cleanLine = toLowerCase (trim line)
      in if test False skipRegex cleanLine then acc
         else
           (let total =
                  (case match1 True totalRegex line of
                     Some (Some amountStr) \<Rightarrow>
                       (case reasonable (parseFloat (removeCommas amountStr)) of
                          Some foundTotal \<Rightarrow> Some foundTotal
                        | None \<Rightarrow> explicitTotal acc)
                   | _ \<Rightarrow> explicitTotal acc);
                likely = (str_includes cleanLine ''total'' \<or> str_includes cleanLine ''amount due''
                          \<or> str_includes cleanLine ''balance'');
                found = concat (map (\<lambda>m. case m of
                                   Some amountStr \<Rightarrow>
                                     (case reasonable (parseFloat (removeCommas amountStr)) of
                                        Some p \<Rightarrow> [\<lparr>price_of = p, line_of = trim line, isLikelyTotal = likely\<rparr>]
                                      | None \<Rightarrow> [])
                                 | None \<Rightarrow> [])
                               (match_all False moneyRegex True line));
                ds = concat (map (\<lambda>m. case m of Some d \<Rightarrow> [d] | None \<Rightarrow> [])
                                 (match_all False dateRegex True line))
            in \<lparr>allPrices = allPrices acc @ found, dates = dates acc @ ds, explicitTotal = total\<rparr>))"

text \<open>\<open>ocrText.split('\n').filter(line => line.trim().length > 0)\<close>, then the loop.\<close>

definition scanText :: "string \<Rightarrow> scan" where
  "scanText ocrText =
     foldl scanLine \<lparr>allPrices = [], dates = [], explicitTotal = None\<rparr> (nonBlankLines ocrText)"

text \<open>
  The selection: the explicit total when there is one; otherwise the amounts are sorted,
  largest first (the sort is stable), and the first on a total-like line is taken, or
  the first of all; no amount when none was found.
\<close>

definition selectAmount :: "scan \<Rightarrow> rat option" where
  "selectAmount sc =
     (case explicitTotal sc of
        Some t \<Rightarrow> Some t
      | None \<Rightarrow>
          (case sort_key (\<lambda>p. - price_of p) (allPrices sc) of
             [] \<Rightarrow> None
           | p # ps \<Rightarrow>
               (case filter isLikelyTotal (p # ps) of
                  [] \<Rightarrow> Some (price_of p)
                | q # qs \<Rightarrow> Some (price_of q))))"

text \<open>
  The \<open>amount\<close> that \<open>extractReceiptData\<close> returns. The vendor, date and line-item
  parts of the function write other fields only.
\<close>

definition extractAmount :: "string \<Rightarrow> rat option" where
  "extractAmount ocrText = selectAmount (scanText ocrText)"

text \<open>
  Read off the loop body: the explicit total one line sets, if it sets one (the line is
  not skipped, the total pattern matches, and the number is in range).
\<close>

definition lineTotal :: "string \<Rightarrow> rat option" where
  "lineTotal line =
     (if test False skipRegex (toLowerCase (trim line)) then None
      else (case match1 True totalRegex line of
              Some (Some amountStr) \<Rightarrow> reasonable (parseFloat (removeCommas amountStr))
            | _ \<Rightarrow> None))"


section \<open>Properties of the validator\<close>

lemma truthy_cleanAmount:
  "truthy (cleanAmount a) = (cleanAmount a \<noteq> Absent \<and> cleanAmount a \<noteq> Num (Fin 0))"
  by (cases "cleanAmount a" rule: truthy.cases)
     (auto simp: cleanAmount_def Let_def split: jsval.splits jsnum.splits if_splits)

text \<open>
  C2, as the code has it. The recomputed confidence starts at 0.5 and adds 0.3, 0.2 and
  0.1 for a present amount, vendor and date, with no clipping: it lies between 0.5 and
  1.1, it is 1.1 exactly when all three fields are present, and it is at most 1 in every
  other case.
\<close>

theorem validate_confidence_bounds:
  "1 / 2 \<le> confidence (validateAndCleanExtractedData dp data)
   \<and> confidence (validateAndCleanExtractedData dp data) \<le> 11 / 10
   \<and> (confidence (validateAndCleanExtractedData dp data) = 11 / 10) =
       (truthy (amount (validateAndCleanExtractedData dp data))
        \<and> present (vendor (validateAndCleanExtractedData dp data))
        \<and> present (date (validateAndCleanExtractedData dp data)))
   \<and> (confidence (validateAndCleanExtractedData dp data) \<le> 1) =
       (\<not> (truthy (amount (validateAndCleanExtractedData dp data))
        \<and> present (vendor (validateAndCleanExtractedData dp data))
        \<and> present (date (validateAndCleanExtractedData dp data))))"
  by (simp add: validateAndCleanExtractedData_def Let_def)

theorem validate_confidence_bounds_witness:
  "1 / 2 \<le> confidence (validateAndCleanExtractedData (dateParses sampleRuntime)
       \<lparr>vendor = Some ''Walmart'', date = None, amount = Num (Fin (23 / 4)),
        confidence = 9 / 10, items = [], rawText = None\<rparr>)
   \<and> confidence (validateAndCleanExtractedData (dateParses sampleRuntime)
       \<lparr>vendor = Some ''Walmart'', date = None, amount = Num (Fin (23 / 4)),
        confidence = 9 / 10, items = [], rawText = None\<rparr>) \<le> 11 / 10"
  using validate_confidence_bounds [of "dateParses sampleRuntime"
       "\<lparr>vendor = Some ''Walmart'', date = None, amount = Num (Fin (23 / 4)),
        confidence = 9 / 10, items = [], rawText = None\<rparr>"]
  by simp

text \<open>
  C2 as stated fails: with a valid amount, vendor and date the validator returns the
  confidence 1.1, outside the interval from 0 to 1.
\<close>

theorem validate_confidence_above_one:
  "\<not> (0 \<le> confidence (validateAndCleanExtractedData (dateParses sampleRuntime)
          \<lparr>vendor = Some ''Walmart'', date = Some ''2024-01-15'', amount = Num (Fin (23 / 4)),
           confidence = 9 / 10, items = [], rawText = None\<rparr>)
      \<and> confidence (validateAndCleanExtractedData (dateParses sampleRuntime)
          \<lparr>vendor = Some ''Walmart'', date = Some ''2024-01-15'', amount = Num (Fin (23 / 4)),
           confidence = 9 / 10, items = [], rawText = None\<rparr>) \<le> 1)"
  by code_simp


lemma dropWhile_butlast_part:
  "dropWhile P (rev (dropWhile P (rev (dropWhile P s)))) = rev (dropWhile P (rev (dropWhile P s)))"
proof (cases "rev (dropWhile P (rev (dropWhile P s)))")
  case Nil
  show ?thesis unfolding Nil by simp
next
  case (Cons x xs)
  let ?t = "dropWhile P s"
  have split: "?t = rev (dropWhile P (rev ?t)) @ rev (takeWhile P (rev ?t))"
    by (metis rev_append rev_rev_ident takeWhile_dropWhile_id)
  then have "?t = (x # xs) @ rev (takeWhile P (rev ?t))" using Cons by simp
  then have "hd ?t = x" and "?t \<noteq> []" by (metis append_Cons list.sel(1), metis append_Cons list.distinct(1))
  then have "\<not> P x" using hd_dropWhile by metis
  then show ?thesis using Cons by simp
qed

lemma trim_idem: "trim (trim s) = trim s"
  unfolding trim_def by (simp add: dropWhile_butlast_part)

lemma cleanVendor_idem: "cleanVendor (cleanVendor v) = cleanVendor v"
  by (auto simp: cleanVendor_def trim_idem split: option.splits)

lemma cleanDate_idem: "cleanDate dp (cleanDate dp d) = cleanDate dp d"
  by (auto simp: cleanDate_def split: option.splits)

lemma round2_idem: "round2 (round2 x) = round2 x"
proof -
  have "\<lfloor>(of_int k :: rat) + 1 / 2\<rfloor> = k" for k by linarith
  then show ?thesis unfolding round2_def by simp
qed

lemma round2_pos: "0 < x \<Longrightarrow> round2 x \<noteq> 0 \<Longrightarrow> 0 < round2 x"
  unfolding round2_def
  by (smt (verit, best) divide_nonneg_nonneg divide_eq_0_iff of_int_0_le_iff of_int_eq_0_iff zero_le_floor
      add_nonneg_nonneg mult_nonneg_nonneg less_eq_rat_def zero_le_numeral zero_le_one order_less_le)

lemma round2_le: "x \<le> 10000 \<Longrightarrow> round2 x \<le> 10000"
proof -
  assume "x \<le> 10000"
  then have "x * 100 + 1 / 2 \<le> 1000000 + 1 / 2" by simp
  then have "\<lfloor>x * 100 + 1 / 2\<rfloor> \<le> \<lfloor>(1000000 + 1 / 2 :: rat)\<rfloor>" by (rule floor_mono)
  moreover have "\<lfloor>(1000000 + 1 / 2 :: rat)\<rfloor> = 1000000" by linarith
  ultimately have "\<lfloor>x * 100 + 1 / 2\<rfloor> \<le> 1000000" by simp
  then have "(of_int \<lfloor>x * 100 + 1 / 2\<rfloor> :: rat) \<le> 1000000" by linarith
  then show ?thesis unfolding round2_def by simp
qed

lemma round2_keeps_range:
  "\<not> x \<le> 0 \<Longrightarrow> \<not> 10000 < x \<Longrightarrow> round2 x \<noteq> 0 \<Longrightarrow>
   \<not> round2 x \<le> 0 \<and> \<not> 10000 < round2 x"
  using round2_pos [of x] round2_le [of x] by auto

lemma cleanAmount_idem:
  "cleanAmount a \<noteq> Num (Fin 0) \<Longrightarrow> cleanAmount (cleanAmount a) = cleanAmount a"
  by (auto simp: cleanAmount_def Let_def round2_idem dest: round2_keeps_range split: jsval.splits jsnum.splits if_splits)

lemma validate_idempotent_unless_rounded_to_zero:
  "amount (validateAndCleanExtractedData dp data) \<noteq> Num (Fin 0) \<Longrightarrow>
   validateAndCleanExtractedData dp (validateAndCleanExtractedData dp data)
     = validateAndCleanExtractedData dp data"
  by (simp add: validateAndCleanExtractedData_def Let_def cleanVendor_idem cleanDate_idem cleanAmount_idem)

text \<open>
  C9 at the failing input: an amount of 0.001 passes the range check, is rounded to 0 and
  returned as the amount; a second pass rejects that 0 and returns no amount. The lemma
  before shows that this is the only way a second pass changes anything.
\<close>

theorem validate_twice_differs:
  "amount (validateAndCleanExtractedData (dateParses sampleRuntime)
      \<lparr>vendor = None, date = None, amount = Num (Fin (1 / 1000)),
       confidence = 9 / 10, items = [], rawText = None\<rparr>) = Num (Fin 0)
   \<and> amount (validateAndCleanExtractedData (dateParses sampleRuntime)
       (validateAndCleanExtractedData (dateParses sampleRuntime)
         \<lparr>vendor = None, date = None, amount = Num (Fin (1 / 1000)),
          confidence = 9 / 10, items = [], rawText = None\<rparr>)) = Absent"
  by code_simp



section \<open>Properties of the expense materializer\<close>

lemma getOrCreateCategory_healthy:
  assumes "\<not> broken d SelectCategory" "\<not> broken d InsertCategory"
  shows "\<exists>c d1. getOrCreateCategory newId v d = Inr (c, d1) \<and> expenses d1 = expenses d
           \<and> broken d1 = broken d"
  using assms by (auto simp: getOrCreateCategory_def Let_def split: option.splits)

lemma noValidAmount_absent:
  "noValidAmount rt Absent" "noValidAmount rt (Num NaN)" "x \<le> 0 \<Longrightarrow> noValidAmount rt (Num (Fin x))"
  "0 < x \<Longrightarrow> \<not> noValidAmount rt (Num (Fin x))"
  by (auto simp: noValidAmount_def)

text \<open>
  C1. When the amount is absent, NaN, zero or negative, neither variant of the
  materializer creates an expense or changes the store. When the amount is a positive
  number and the store's statements work, an expense row is created whatever the vendor
  and the date are: the description is "Receipt purchase" without a vendor, the date is
  the current day without a date, and the vendor is "Unknown" without a vendor.
\<close>

theorem materializer_gate:
  "((amount data = Absent \<or> amount data = Num NaN \<or> (amount data = Num (Fin x) \<and> x \<le> 0)) \<longrightarrow>
      createExpenseFromExtractedData rt eid cid data rid d = (None, d)
      \<and> createExpenseFromExtractedData_server rt cp eid data rid d = d)
   \<and> ((amount data = Num (Fin x) \<and> 0 < x) \<and> (\<forall>s. \<not> broken d s) \<longrightarrow>
      (\<exists>c. fst (createExpenseFromExtractedData rt eid cid data rid d) =
             Some \<lparr>exp_id = eid, exp_amount = amount data,
                   exp_description = (if present (vendor data)
                      then ''Purchase at '' @ the (vendor data) else ''Receipt purchase''),
                   exp_category = c,
                   exp_date = (if present (date data) then formatDate rt (the (date data)) else today rt),
                   exp_vendor = (if present (vendor data)
                        \<and> \<not> list_ex (\<lambda>p. test True p (the (vendor data))) invalidVendorPatterns
                      then the (vendor data) else ''Unknown''),
                   exp_tags = [''receipt-import'', ''auto-created''], exp_receipt_id = rid\<rparr>
           \<and> expenses (snd (createExpenseFromExtractedData rt eid cid data rid d)) =
               expenses d @ [the (fst (createExpenseFromExtractedData rt eid cid data rid d))]))
   \<and> ((amount data = Num (Fin x) \<and> 0 < x)
        \<and> cp (if present (vendor data) then the (vendor data) else []) d = Inr (c', d')
        \<and> \<not> broken d' InsertExpense \<longrightarrow>
      expenses (createExpenseFromExtractedData_server rt cp eid data rid d) =
        expenses d' @
          [\<lparr>exp_id = eid, exp_amount = amount data,
            exp_description = (if present (vendor data)
               then ''Purchase at '' @ the (vendor data) else ''Receipt purchase''),
            exp_category = c',
            exp_date = (if present (date data) then formatDate_server rt (the (date data)) else today rt),
            exp_vendor = (if present (vendor data) then the (vendor data) else ''Unknown''),
            exp_tags = [''receipt-import'', ''auto-created''], exp_receipt_id = rid\<rparr>])"
proof (intro conjI impI)
  assume "amount data = Absent \<or> amount data = Num NaN \<or> (amount data = Num (Fin x) \<and> x \<le> 0)"
  then have nv: "noValidAmount rt (amount data)" by (auto simp: noValidAmount_absent)
  show "createExpenseFromExtractedData rt eid cid data rid d = (None, d)"
    using nv by (simp add: createExpenseFromExtractedData_def)
  show "createExpenseFromExtractedData_server rt cp eid data rid d = d"
    using nv by (simp add: createExpenseFromExtractedData_server_def)
next
  assume h: "(amount data = Num (Fin x) \<and> 0 < x) \<and> (\<forall>s. \<not> broken d s)"
  then have v: "\<not> noValidAmount rt (amount data)" by (auto simp: noValidAmount_absent)
  obtain c d1 where g: "getOrCreateCategory cid
        (if present (vendor data) then the (vendor data) else ''Other'') d = Inr (c, d1)"
      and e: "expenses d1 = expenses d" and b: "broken d1 = broken d"
    using getOrCreateCategory_healthy [of d] h by blast
  show "\<exists>c. fst (createExpenseFromExtractedData rt eid cid data rid d) =
             Some \<lparr>exp_id = eid, exp_amount = amount data,
                   exp_description = (if present (vendor data)
                      then ''Purchase at '' @ the (vendor data) else ''Receipt purchase''),
                   exp_category = c,
                   exp_date = (if present (date data) then formatDate rt (the (date data)) else today rt),
                   exp_vendor = (if present (vendor data)
                        \<and> \<not> list_ex (\<lambda>p. test True p (the (vendor data))) invalidVendorPatterns
                      then the (vendor data) else ''Unknown''),
                   exp_tags = [''receipt-import'', ''auto-created''], exp_receipt_id = rid\<rparr>
           \<and> expenses (snd (createExpenseFromExtractedData rt eid cid data rid d)) =
               expenses d @ [the (fst (createExpenseFromExtractedData rt eid cid data rid d))]"
    apply (rule exI [of _ c])
    using v g e b h
    by (auto simp: createExpenseFromExtractedData_def Let_def)
next
  assume h: "(amount data = Num (Fin x) \<and> 0 < x)
        \<and> cp (if present (vendor data) then the (vendor data) else []) d = Inr (c', d')
        \<and> \<not> broken d' InsertExpense"
  then have v: "\<not> noValidAmount rt (amount data)" by (auto simp: noValidAmount_absent)
  show "expenses (createExpenseFromExtractedData_server rt cp eid data rid d) =
        expenses d' @
          [\<lparr>exp_id = eid, exp_amount = amount data,
            exp_description = (if present (vendor data)
               then ''Purchase at '' @ the (vendor data) else ''Receipt purchase''),
            exp_category = c',
            exp_date = (if present (date data) then formatDate_server rt (the (date data)) else today rt),
            exp_vendor = (if present (vendor data) then the (vendor data) else ''Unknown''),
            exp_tags = [''receipt-import'', ''auto-created''], exp_receipt_id = rid\<rparr>]"
    using v h by (simp add: createExpenseFromExtractedData_server_def Let_def)
qed



theorem materializer_gate_witness:
  "createExpenseFromExtractedData sampleRuntime ''e1'' ''c1'' noAmount ''r1'' emptyDb = (None, emptyDb)
   \<and> createExpenseFromExtractedData_server sampleRuntime oneCategory ''e1'' noAmount ''r1'' emptyDb = emptyDb
   \<and> (\<exists>c. fst (createExpenseFromExtractedData sampleRuntime ''e1'' ''c1'' amountOnly ''r1'' emptyDb) =
         Some \<lparr>exp_id = ''e1'', exp_amount = Num (Fin (23 / 4)),
               exp_description = ''Receipt purchase'', exp_category = c,
               exp_date = ''2026-01-01'', exp_vendor = ''Unknown'',
               exp_tags = [''receipt-import'', ''auto-created''], exp_receipt_id = ''r1''\<rparr>)
   \<and> expenses (createExpenseFromExtractedData_server sampleRuntime oneCategory ''e1'' amountOnly ''r1'' emptyDb) =
         [\<lparr>exp_id = ''e1'', exp_amount = Num (Fin (23 / 4)),
               exp_description = ''Receipt purchase'', exp_category = ''c1'',
               exp_date = ''2026-01-01'', exp_vendor = ''Unknown'',
               exp_tags = [''receipt-import'', ''auto-created''], exp_receipt_id = ''r1''\<rparr>]"
proof -
  have a: "amount noAmount = Absent" by (simp add: noAmount_def)
  have b: "(amount amountOnly = Num (Fin (23 / 4)) \<and> 0 < (23 / 4 :: rat)) \<and> (\<forall>s. \<not> broken emptyDb s)"
    by (simp add: amountOnly_def emptyDb_def)
  have c: "(amount amountOnly = Num (Fin (23 / 4)) \<and> 0 < (23 / 4 :: rat))
        \<and> oneCategory (if present (vendor amountOnly) then the (vendor amountOnly) else []) emptyDb
            = Inr (''c1'', emptyDb)
        \<and> \<not> broken emptyDb InsertExpense"
    by (simp add: amountOnly_def emptyDb_def oneCategory_def)
  have f: "\<not> present (vendor amountOnly)" "\<not> present (date amountOnly)" "today sampleRuntime = ''2026-01-01''"
     "amount amountOnly = Num (Fin (23 / 4))" "expenses emptyDb = []"
    by (simp_all add: amountOnly_def present_def sampleRuntime_def emptyDb_def)
  from a materializer_gate [of noAmount 0 sampleRuntime "''e1''" "''c1''" "''r1''" emptyDb oneCategory]
  have 1: "createExpenseFromExtractedData sampleRuntime ''e1'' ''c1'' noAmount ''r1'' emptyDb = (None, emptyDb)
      \<and> createExpenseFromExtractedData_server sampleRuntime oneCategory ''e1'' noAmount ''r1'' emptyDb = emptyDb"
    by blast
  from b c materializer_gate [of amountOnly "23 / 4" sampleRuntime "''e1''" "''c1''" "''r1''" emptyDb oneCategory "''c1''" emptyDb]
  have 2: "(\<exists>c. fst (createExpenseFromExtractedData sampleRuntime ''e1'' ''c1'' amountOnly ''r1'' emptyDb) =
         Some \<lparr>exp_id = ''e1'', exp_amount = Num (Fin (23 / 4)),
               exp_description = ''Receipt purchase'', exp_category = c,
               exp_date = ''2026-01-01'', exp_vendor = ''Unknown'',
               exp_tags = [''receipt-import'', ''auto-created''], exp_receipt_id = ''r1''\<rparr>)
   \<and> expenses (createExpenseFromExtractedData_server sampleRuntime oneCategory ''e1'' amountOnly ''r1'' emptyDb) =
         [\<lparr>exp_id = ''e1'', exp_amount = Num (Fin (23 / 4)),
               exp_description = ''Receipt purchase'', exp_category = ''c1'',
               exp_date = ''2026-01-01'', exp_vendor = ''Unknown'',
               exp_tags = [''receipt-import'', ''auto-created''], exp_receipt_id = ''r1''\<rparr>]"
    by (simp add: f)
  from 1 2 show ?thesis by blast
qed



section \<open>Properties of the OCR quality gate\<close>

lemma quality_of_empty:
  "validateOCRQuality [] = \<lparr>score = 6, issues = [''Text too short'', ''Too few lines detected'']\<rparr>"
  by code_simp

text \<open>
  C10. On the empty text the gate returns the score 6 with the issues "Text too short"
  and "Too few lines detected": the special-character ratio and the valid-word ratio are
  0 / 0, their comparisons are false. 6 is not below 5, so a first OCR run that reads
  nothing is kept and no second run in retry mode is made.
\<close>

theorem empty_text_passes_gate:
  "validateOCRQuality [] = \<lparr>score = 6, issues = [''Text too short'', ''Too few lines detected'']\<rparr>
   \<and> \<not> num_gt (js_div (length (match_all False specialCharRe True [])) (length ([] :: string))) (3 / 10)
   \<and> \<not> num_lt (js_div (length (filter (\<lambda>w. test False validWordRe w)
                                  (filter (\<lambda>w. length w > 0) (js_split False spacesRe []))))
                        (length (filter (\<lambda>w. length w > 0) (js_split False spacesRe [])))) (6 / 10)
   \<and> \<not> score (validateOCRQuality []) < 5
   \<and> (performEnhancedOCR False = Inr [] \<longrightarrow> readImageText performEnhancedOCR = (Inr [], [False]))"
proof (intro conjI impI)
  show "validateOCRQuality [] = \<lparr>score = 6, issues = [''Text too short'', ''Too few lines detected'']\<rparr>"
    by (rule quality_of_empty)
  show "\<not> num_gt (js_div (length (match_all False specialCharRe True [])) (length ([] :: string))) (3 / 10)"
    by code_simp
  show "\<not> num_lt (js_div (length (filter (\<lambda>w. test False validWordRe w)
                                  (filter (\<lambda>w. length w > 0) (js_split False spacesRe []))))
                        (length (filter (\<lambda>w. length w > 0) (js_split False spacesRe [])))) (6 / 10)"
    by code_simp
  show "\<not> score (validateOCRQuality []) < 5" by (simp add: quality_of_empty)
next
  assume "performEnhancedOCR False = Inr []"
  then show "readImageText performEnhancedOCR = (Inr [], [False])"
    by (simp add: readImageText_def quality_of_empty)
qed

theorem empty_text_passes_gate_witness:
  "blankOCR False = Inr [] \<and> readImageText blankOCR = (Inr [], [False])"
  using empty_text_passes_gate [of blankOCR] by (simp add: blankOCR_def)



lemma alnum_not_space: "is_alnum c \<Longrightarrow> \<not> is_space c"
  by (auto simp: is_space_def is_alnum_def is_lower_def is_upper_def is_digit_def in_range_def
                 char_le_def)

lemma alnum_not_newline: "is_alnum c \<Longrightarrow> c \<noteq> CHR 0x0A"
  using alnum_not_space [of c] by (auto simp: is_space_def)

lemma alnum_not_special:
  "is_alnum c \<Longrightarrow> class_ok False [Rng CHR ''a'' CHR ''z'', Rng CHR ''A'' CHR ''Z'', Rng CHR ''0'' CHR ''9'', Spc,
                           Ch CHR ''$'', Ch CHR ''.'', Ch CHR '','', Ch CHR '':'', Ch CHR ''/'', Ch CHR ''-''] c"
  by (auto simp: class_ok_def is_alnum_def is_lower_def is_upper_def is_digit_def)

lemma alnum_word_char:
  "is_alnum c \<Longrightarrow> class_ok False [Rng CHR ''a'' CHR ''z'', Rng CHR ''A'' CHR ''Z'', Rng CHR ''0'' CHR ''9'',
                Ch CHR ''$'', Ch CHR ''.'', Ch CHR '','', Ch CHR '':'', Ch CHR ''/'', Ch CHR ''-''] c"
  by (auto simp: class_ok_def is_alnum_def is_lower_def is_upper_def is_digit_def)

lemma search_NoneOf_none:
  "list_all (class_ok ic as) s \<Longrightarrow> search ic (NoneOf as) b s = None"
  by (induction s arbitrary: b) auto

lemma match_all_NoneOf_none:
  "list_all (class_ok ic as) s \<Longrightarrow> match_all ic (NoneOf as) b s = []"
  by (simp add: match_all.simps search_NoneOf_none)

lemma split_from_no_space:
  "list_all (\<lambda>c. \<not> is_space c) s \<Longrightarrow> split_from False spacesRe cur b s = [rev cur @ s]"
  by (induction s arbitrary: cur b) (auto simp: spacesRe_def Plus_def class_ok_def)

lemma star_one_step:
  "class_ok ic as x \<Longrightarrow>
   ms ic (Star (One as)) (b, x # xs, c) = ms ic (Star (One as)) (False, xs, c) @ [(b, x # xs, c)]"
  by simp

lemma star_one_stop:
  "ms ic (Star (One as)) (b, [], c) = [(b, [], c)]"
  by simp

lemma star_reaches_end:
  "list_all (class_ok ic as) s \<Longrightarrow>
   (if s = [] then b else False, [], c) \<in> set (ms ic (Star (One as)) (b, s, c))"
proof (induction s arbitrary: b)
  case Nil
  show ?case by (simp only: star_one_stop) simp
next
  case (Cons x xs)
  then have ok: "class_ok ic as x" and rest: "list_all (class_ok ic as) xs" by auto
  have "(if xs = [] then False else False, [], c) \<in> set (ms ic (Star (One as)) (False, xs, c))"
    using Cons.IH [OF rest] .
  then have "(False, [], c) \<in> set (ms ic (Star (One as)) (False, xs, c))" by simp
  then show ?case by (simp only: star_one_step [OF ok]) simp
qed

lemma valid_word_alnum:
  assumes "list_all is_alnum w" "w \<noteq> []"
  shows "test False validWordRe w"
proof -
  obtain x xs where w: "w = x # xs" using assms(2) by (cases w) auto
  let ?as = "[Rng CHR ''a'' CHR ''z'', Rng CHR ''A'' CHR ''Z'', Rng CHR ''0'' CHR ''9'',
                Ch CHR ''$'', Ch CHR ''.'', Ch CHR '','', Ch CHR '':'', Ch CHR ''/'', Ch CHR ''-'']"
  have ok: "class_ok False ?as x" "list_all (class_ok False ?as) xs"
    using assms(1) w alnum_word_char by (auto simp: list_all_iff)
  have m: "(False, [], None) \<in> set (ms False (Star (One ?as)) (False, xs, None))"
    using star_reaches_end [OF ok(2), of False None] by simp
  have e: "ms False validWordRe (True, w, None)
             = concat (map (ms False Eol) (ms False (Star (One ?as)) (False, xs, None)))"
    using ok(1) by (simp add: validWordRe_def Plus_def w del: ms.simps(5))
  have "(False, [], None) \<in> set (ms False Eol (False, [], None))" by simp
  with m have "(False, [], None) \<in> set (ms False validWordRe (True, w, None))"
    unfolding e set_concat set_map by blast
  then have "ms False validWordRe (True, w, None) \<noteq> []" by auto
  then show ?thesis
    by (simp add: test_def w split: list.splits)
qed

lemma split_on_absent: "d \<notin> set s \<Longrightarrow> split_on d s = [s]"
  by (induction s) auto

lemma trim_nonblank: "s \<noteq> [] \<Longrightarrow> list_all (\<lambda>c. \<not> is_space c) s \<Longrightarrow> trim s = s"
proof -
  assume a: "s \<noteq> []" "list_all (\<lambda>c. \<not> is_space c) s"
  then have "dropWhile is_space s = s" by (cases s) auto
  moreover have "dropWhile is_space (rev s) = rev s" using a by (cases "rev s") (auto simp: list_all_iff)
  ultimately show ?thesis by (simp add: trim_def)
qed

lemma quality_of_alnum_run:
  assumes "list_all is_alnum text" "20 \<le> length text"
  shows "validateOCRQuality text = \<lparr>score = 9, issues = [''Too few lines detected'']\<rparr>"
proof -
  have ne: "text \<noteq> []" using assms(2) by auto
  have ns: "list_all (\<lambda>c. \<not> is_space c) text"
    using assms(1) alnum_not_space by (auto simp: list_all_iff)
  have sp: "match_all False specialCharRe True text = []"
    unfolding specialCharRe_def
    by (rule match_all_NoneOf_none) (use assms(1) alnum_not_special in \<open>auto simp: list_all_iff\<close>)
  have words: "js_split False spacesRe text = [text]"
    using ne split_from_no_space [OF ns, of "[]" True] by (simp add: js_split_def)
  have valid: "test False validWordRe text" using assms(1) ne by (rule valid_word_alnum)
  have "CHR 0x0A \<notin> set text" using assms(1) alnum_not_newline by (auto simp: list_all_iff)
  then have lines: "nonBlankLines text = [text]"
    using trim_nonblank [OF ne ns] ne by (simp add: nonBlankLines_def split_on_absent)
  show ?thesis
    using ne assms(2) by (simp add: validateOCRQuality_def Let_def sp words valid lines js_div_def)
qed



text \<open>
  C5, as the code has it. A text of 500 letters and digits without white space is one
  word that the valid-word pattern accepts, so only the line-count rule fires: the score
  is 9, with the one issue "Too few lines detected". A text of at least 20 characters
  with at least 3 non-blank lines, a special-character ratio of at most 0.3 and a
  valid-word ratio of at least 0.6 breaks no rule: the score is 10.
\<close>

theorem quality_gate_scores:
  "(list_all is_alnum text \<and> length text = 500 \<longrightarrow>
      validateOCRQuality text = \<lparr>score = 9, issues = [''Too few lines detected'']\<rparr>)
   \<and> (20 \<le> length text
       \<and> \<not> num_gt (js_div (length (match_all False specialCharRe True text)) (length text)) (3 / 10)
       \<and> \<not> num_lt (js_div (length (filter (\<lambda>w. test False validWordRe w)
                                    (filter (\<lambda>w. length w > 0) (js_split False spacesRe text))))
                          (length (filter (\<lambda>w. length w > 0) (js_split False spacesRe text)))) (6 / 10)
       \<and> 3 \<le> length (nonBlankLines text) \<longrightarrow>
      validateOCRQuality text = \<lparr>score = 10, issues = []\<rparr>)"
proof (intro conjI impI)
  assume "list_all is_alnum text \<and> length text = 500"
  then show "validateOCRQuality text = \<lparr>score = 9, issues = [''Too few lines detected'']\<rparr>"
    using quality_of_alnum_run [of "text"] by simp
next
  assume "20 \<le> length text
       \<and> \<not> num_gt (js_div (length (match_all False specialCharRe True text)) (length text)) (3 / 10)
       \<and> \<not> num_lt (js_div (length (filter (\<lambda>w. test False validWordRe w)
                                    (filter (\<lambda>w. length w > 0) (js_split False spacesRe text))))
                          (length (filter (\<lambda>w. length w > 0) (js_split False spacesRe text)))) (6 / 10)
       \<and> 3 \<le> length (nonBlankLines text)"
  then show "validateOCRQuality text = \<lparr>score = 10, issues = []\<rparr>"
    by (simp add: validateOCRQuality_def Let_def)
qed

lemma alnum_a: "is_alnum CHR ''a''"
  by code_simp

theorem quality_gate_scores_witness:
  "validateOCRQuality (replicate 500 CHR ''a'') = \<lparr>score = 9, issues = [''Too few lines detected'']\<rparr>
   \<and> validateOCRQuality sampleReceipt = \<lparr>score = 10, issues = []\<rparr>"
proof -
  have a: "list_all is_alnum (replicate 500 CHR ''a'') \<and> length (replicate 500 CHR ''a'') = 500"
    by (simp add: list_all_iff alnum_a)
  have b: "20 \<le> length sampleReceipt
       \<and> \<not> num_gt (js_div (length (match_all False specialCharRe True sampleReceipt)) (length sampleReceipt)) (3 / 10)
       \<and> \<not> num_lt (js_div (length (filter (\<lambda>w. test False validWordRe w)
                                    (filter (\<lambda>w. length w > 0) (js_split False spacesRe sampleReceipt))))
                          (length (filter (\<lambda>w. length w > 0) (js_split False spacesRe sampleReceipt)))) (6 / 10)
       \<and> 3 \<le> length (nonBlankLines sampleReceipt)"
    by code_simp
  from a b quality_gate_scores [of "replicate 500 CHR ''a''"] quality_gate_scores [of sampleReceipt]
  show ?thesis by blast
qed

text \<open>
  C5 as stated fails: 500 times the letter a, a text of 500 alphanumeric characters
  without a space, does not score below 5.
\<close>

theorem alnum_run_not_below_five:
  "\<not> score (validateOCRQuality (replicate 500 CHR ''a'')) < 5"
  using quality_of_alnum_run [of "replicate 500 CHR ''a''"]
  by (simp add: list_all_iff alnum_a)



section \<open>Properties of the heuristic amount extraction\<close>

lemma hd_sort_key_least:
  assumes "xs \<noteq> []"
  shows "hd (sort_key f xs) \<in> set xs \<and> (\<forall>y\<in>set xs. f (hd (sort_key f xs)) \<le> f y)"
proof -
  let ?s = "sort_key f xs"
  have ne: "?s \<noteq> []" using assms by (metis length_sort list.size(3) length_0_conv)
  then obtain p ps where s: "?s = p # ps" by (cases ?s) auto
  have "sorted (map f ?s)" by (rule sorted_sort_key)
  then have "\<forall>y\<in>set ps. f p \<le> f y" unfolding s by auto
  moreover have "set ?s = set xs" by simp
  ultimately show ?thesis unfolding s by (metis list.sel(1) list.set_intros(1) order_refl set_ConsD s)
qed

lemma selectAmount_largest:
  assumes "explicitTotal sc = None" "list_all (\<lambda>p. \<not> isLikelyTotal p) (allPrices sc)"
  shows "selectAmount sc =
           (if allPrices sc = [] then None else Some (Max (set (map price_of (allPrices sc)))))"
proof (cases "allPrices sc = []")
  case True
  then show ?thesis using assms(1) by (simp add: selectAmount_def)
next
  case False
  let ?s = "sort_key (\<lambda>p. - price_of p) (allPrices sc)"
  from hd_sort_key_least [OF False, of "\<lambda>p. - price_of p"]
  have h: "hd ?s \<in> set (allPrices sc)" "\<forall>y\<in>set (allPrices sc). price_of y \<le> price_of (hd ?s)"
    by auto
  have ne: "?s \<noteq> []" using False by (metis length_sort list.size(3) length_0_conv)
  then obtain p ps where s: "?s = p # ps" by (cases ?s) auto
  have "set ?s = set (allPrices sc)" by simp
  then have "filter isLikelyTotal ?s = []"
    using assms(2) by (auto simp: list_all_iff filter_empty_conv)
  then have sel: "selectAmount sc = Some (price_of p)"
    using assms(1) s by (simp add: selectAmount_def)
  have "Max (set (map price_of (allPrices sc))) = price_of p"
    using h s by (intro Max_eqI) auto
  then show ?thesis using sel False by simp
qed

lemma reasonable_range: "reasonable n = Some x \<Longrightarrow> 0 < x \<and> x < 10000"
  by (auto simp: reasonable_def split: jsnum.splits if_splits)

lemma scanLine_prices_in_range:
  assumes "list_all (\<lambda>p. 0 < price_of p \<and> price_of p < 10000) (allPrices acc)"
  shows "list_all (\<lambda>p. 0 < price_of p \<and> price_of p < 10000) (allPrices (scanLine acc l))"
  using assms
  by (auto simp: scanLine_def Let_def list_all_iff dest: reasonable_range reasonable_range [OF sym] split: option.splits)

lemma foldl_scanLine_prices_in_range:
  "list_all (\<lambda>p. 0 < price_of p \<and> price_of p < 10000) (allPrices acc) \<Longrightarrow>
   list_all (\<lambda>p. 0 < price_of p \<and> price_of p < 10000) (allPrices (foldl scanLine acc ls))"
  by (induction ls arbitrary: acc) (auto intro: scanLine_prices_in_range)

text \<open>
  C4. When the scan of the text records no explicit total and none of the detected
  amounts is on a line with a total keyword, the amount returned is the largest of the
  detected amounts (all of which are above 0 and below 10000), and there is no amount
  when none was detected.
\<close>

theorem largest_amount_without_total:
  "(explicitTotal (scanText t) = None
     \<and> list_all (\<lambda>p. \<not> isLikelyTotal p) (allPrices (scanText t)) \<longrightarrow>
    extractAmount t =
      (if allPrices (scanText t) = [] then None
       else Some (Max (set (map price_of (allPrices (scanText t)))))))
   \<and> list_all (\<lambda>p. 0 < price_of p \<and> price_of p < 10000) (allPrices (scanText t))"
  using selectAmount_largest [of "scanText t"] foldl_scanLine_prices_in_range [of "\<lparr>allPrices = [], dates = [], explicitTotal = None\<rparr>" "nonBlankLines t"]
  by (auto simp: extractAmount_def scanText_def)


theorem largest_amount_without_total_witness:
  "explicitTotal (scanText (joinLines [''COFFEE $3.50'', ''BAGEL $12.25'', ''TEA $2.00''])) = None
   \<and> extractAmount (joinLines [''COFFEE $3.50'', ''BAGEL $12.25'', ''TEA $2.00'']) = Some (49 / 4)"
proof -
  have a: "explicitTotal (scanText (joinLines [''COFFEE $3.50'', ''BAGEL $12.25'', ''TEA $2.00''])) = None
     \<and> list_all (\<lambda>p. \<not> isLikelyTotal p) (allPrices (scanText (joinLines [''COFFEE $3.50'', ''BAGEL $12.25'', ''TEA $2.00''])))"
    by code_simp
  have b: "map price_of (allPrices (scanText (joinLines [''COFFEE $3.50'', ''BAGEL $12.25'', ''TEA $2.00''])))
           = [7 / 2, 49 / 4, 2]"
    by code_simp
  from a largest_amount_without_total [of "joinLines [''COFFEE $3.50'', ''BAGEL $12.25'', ''TEA $2.00'']"]
  have "extractAmount (joinLines [''COFFEE $3.50'', ''BAGEL $12.25'', ''TEA $2.00'']) =
      (if allPrices (scanText (joinLines [''COFFEE $3.50'', ''BAGEL $12.25'', ''TEA $2.00''])) = [] then None
       else Some (Max (set (map price_of (allPrices (scanText (joinLines [''COFFEE $3.50'', ''BAGEL $12.25'', ''TEA $2.00''])))))))"
    by blast
  moreover have "allPrices (scanText (joinLines [''COFFEE $3.50'', ''BAGEL $12.25'', ''TEA $2.00''])) \<noteq> []"
    using b by auto
  ultimately show ?thesis using a b by simp
qed




subsection \<open>Evaluation of the character tests on literals and on digits\<close>

lemma class_ok_Char:
  "class_ok ic as (Char b0 b1 b2 b3 b4 b5 b6 b7)
     = list_ex (\<lambda>a. atom_ok ic a (Char b0 b1 b2 b3 b4 b5 b6 b7)) as"
  by (simp add: class_ok_def)

lemma is_digit_Char:
  "is_digit (Char b0 b1 b2 b3 b4 b5 b6 b7) = in_range CHR ''0'' CHR ''9'' (Char b0 b1 b2 b3 b4 b5 b6 b7)"
  by (simp add: is_digit_def)

lemma is_lower_Char:
  "is_lower (Char b0 b1 b2 b3 b4 b5 b6 b7) = in_range CHR ''a'' CHR ''z'' (Char b0 b1 b2 b3 b4 b5 b6 b7)"
  by (simp add: is_lower_def)

lemma is_upper_Char:
  "is_upper (Char b0 b1 b2 b3 b4 b5 b6 b7) = in_range CHR ''A'' CHR ''Z'' (Char b0 b1 b2 b3 b4 b5 b6 b7)"
  by (simp add: is_upper_def)

lemma is_space_Char:
  "is_space (Char b0 b1 b2 b3 b4 b5 b6 b7) =
     (Char b0 b1 b2 b3 b4 b5 b6 b7
        \<in> set [CHR 0x09, CHR 0x0A, CHR 0x0B, CHR 0x0C, CHR 0x0D, CHR 0x20, CHR 0xA0])"
  by (simp add: is_space_def)

lemma in_range_Char:
  "in_range lo hi (Char b0 b1 b2 b3 b4 b5 b6 b7)
     = (char_le lo (Char b0 b1 b2 b3 b4 b5 b6 b7) \<and> char_le (Char b0 b1 b2 b3 b4 b5 b6 b7) hi)"
  by (simp add: in_range_def)

lemma upper_char_Char:
  "upper_char (Char b0 b1 b2 b3 b4 b5 b6 b7) =
     (if is_lower (Char b0 b1 b2 b3 b4 b5 b6 b7)
         \<or> (in_range (CHR 0xE0) (CHR 0xFE) (Char b0 b1 b2 b3 b4 b5 b6 b7)
             \<and> Char b0 b1 b2 b3 b4 b5 b6 b7 \<noteq> CHR 0xF7)
      then Char b0 b1 b2 b3 b4 False b6 b7 else Char b0 b1 b2 b3 b4 b5 b6 b7)"
  by (simp add: upper_char_def)

lemma lower_char_Char:
  "lower_char (Char b0 b1 b2 b3 b4 b5 b6 b7) =
     (if is_upper (Char b0 b1 b2 b3 b4 b5 b6 b7)
         \<or> (in_range (CHR 0xC0) (CHR 0xDE) (Char b0 b1 b2 b3 b4 b5 b6 b7)
             \<and> Char b0 b1 b2 b3 b4 b5 b6 b7 \<noteq> CHR 0xD7)
      then Char b0 b1 b2 b3 b4 True b6 b7 else Char b0 b1 b2 b3 b4 b5 b6 b7)"
  by (simp add: lower_char_def)

lemmas char_eval = class_ok_Char is_digit_Char is_lower_Char is_upper_Char is_space_Char
  in_range_Char upper_char_Char lower_char_Char char_le_def

lemma is_digit_bits:
  "is_digit (Char b0 b1 b2 b3 b4 b5 b6 b7)
     = (\<not> b7 \<and> \<not> b6 \<and> b5 \<and> b4 \<and> (\<not> b3 \<or> (\<not> b2 \<and> \<not> b1)))"
  by (cases b1; cases b2; cases b3; cases b4; cases b5; cases b6; cases b7;
      simp add: is_digit_def in_range_def char_le_def)

lemma digit_cases:
  assumes "is_digit d"
  shows "d = CHR ''0'' \<or> d = CHR ''1'' \<or> d = CHR ''2'' \<or> d = CHR ''3'' \<or> d = CHR ''4''
         \<or> d = CHR ''5'' \<or> d = CHR ''6'' \<or> d = CHR ''7'' \<or> d = CHR ''8'' \<or> d = CHR ''9''"
proof (cases d)
  case (Char b0 b1 b2 b3 b4 b5 b6 b7)
  show ?thesis using assms unfolding Char is_digit_bits
    by (cases b0; cases b1; cases b2; cases b3; simp)
qed

lemma digit_facts:
  assumes "is_digit d"
  shows "\<not> is_space d" "d \<noteq> CHR '',''" "d \<noteq> CHR ''.''" "d \<noteq> CHR ''$''" "d \<noteq> CHR '':''"
    "d \<noteq> CHR ''-''" "d \<noteq> CHR ''+''" "d \<noteq> CHR ''I''" "upper_char d = d" "lower_char d = d"
    "0 \<le> digit_val d" "digit_val d \<le> 9"
  using digit_cases [OF assms]
  by (elim disjE; simp add: char_eval digit_val_def)+

lemma class_digit: "class_ok ic [Dgt] d = is_digit d"
  by (simp add: class_ok_def)

lemma class_digit_others:
  assumes "is_digit d"
  shows "\<not> class_ok ic [Ch CHR '',''] d" "\<not> class_ok ic [Ch CHR ''.''] d" "\<not> class_ok ic [Spc] d"
    "\<not> class_ok ic [Spc, Ch CHR '':''] d" "\<not> class_ok ic [Ch CHR ''$''] d"
  using digit_facts [OF assms] by (auto simp: class_ok_def char_eval)

lemma moneyDigits_nf:
  "moneyDigits =
     Seq (Seq (One [Dgt]) (Opt (Seq (One [Dgt]) (Opt (Seq (One [Dgt]) (Opt (One [Dgt])))))))
         (Seq (Star (Seq (One [Ch CHR '','']) (Seq (One [Dgt]) (Seq (One [Dgt]) (One [Dgt])))))
              (Opt (Seq (One [Ch CHR ''.'']) (Seq (One [Dgt]) (One [Dgt])))))"
  by (simp add: moneyDigits_def Rep_def eval_nat_numeral)

lemma dec_val_bounds:
  "list_all is_digit xs \<Longrightarrow> 0 \<le> acc \<Longrightarrow>
   10 ^ length xs * acc \<le> dec_val acc xs \<and> dec_val acc xs < 10 ^ length xs * (acc + 1)"
proof (induction xs arbitrary: acc)
  case Nil
  then show ?case by simp
next
  case (Cons x xs)
  then have d: "0 \<le> digit_val x" "digit_val x \<le> 9" and r: "list_all is_digit xs"
    using digit_facts by auto
  have "0 \<le> 10 * acc + digit_val x" using Cons.prems(2) d by simp
  from Cons.IH [OF r this]
  have ih: "10 ^ length xs * (10 * acc + digit_val x) \<le> dec_val (10 * acc + digit_val x) xs"
    "dec_val (10 * acc + digit_val x) xs < 10 ^ length xs * (10 * acc + digit_val x + 1)" by auto
  have p: "(0::int) < 10 ^ length xs" by simp
  have "10 ^ length xs * (10 * acc) \<le> 10 ^ length xs * (10 * acc + digit_val x)"
    using d p by (intro mult_left_mono) auto
  moreover have "10 ^ length xs * (10 * acc + digit_val x + 1) \<le> 10 ^ length xs * (10 * (acc + 1))"
    using d p by (intro mult_left_mono) auto
  moreover have "10 ^ length (x # xs) * acc = 10 ^ length xs * (10 * acc)"
    "10 ^ length (x # xs) * (acc + 1) = 10 ^ length xs * (10 * (acc + 1))" by simp_all
  moreover have "dec_val acc (x # xs) = dec_val (10 * acc + digit_val x) xs" by simp
  ultimately show ?case using ih by linarith
qed

lemma reasonable_money:
  assumes "0 < v" "v < 1000000"
  shows "reasonable (Fin (of_int v / 100)) = Some (of_int v / 100)"
proof -
  have "(0::rat) < of_int v" using assms(1) by simp
  moreover have "(of_int v :: rat) < 1000000" using assms(2) by linarith
  ultimately show ?thesis by (simp add: reasonable_def)
qed



subsection \<open>A line "Total: $a"\<close>

lemma lineTotal_from_parts:
  assumes "\<not> test False skipRegex (toLowerCase (trim l))"
    and "match1 True totalRegex l = Some (Some cap)"
    and "parseFloat (removeCommas cap) = Fin (of_int v / 100)"
    and "0 < v" "v < 1000000"
  shows "lineTotal l = Some (of_int v / 100)"
  unfolding lineTotal_def using assms(1-3) reasonable_money [OF assms(4,5)] by simp

lemmas total_line_eval =
  test_def skipRegex_def trim_def toLowerCase_def digit_facts char_eval
  match1_def totalRegex_def moneyDigits_nf Plus_def class_digit class_digit_others
  parseFloat_def removeCommas_def Let_def scale10_def exponent_def

lemma lineTotal_plain1:
  assumes "is_digit d1" "is_digit c1" "is_digit c2" "0 < dec_val 0 [d1, c1, c2]"
  shows "lineTotal (''Total: $'' @ [d1] @ ''.'' @ [c1, c2]) = Some (of_int (dec_val 0 [d1, c1, c2]) / 100)"
proof (rule lineTotal_from_parts [where cap = "[d1] @ ''.'' @ [c1, c2]"])
  show "dec_val 0 [d1, c1, c2] < 1000000"
    using dec_val_bounds [of "[d1, c1, c2]" 0] assms by simp
qed (use assms in \<open>simp_all add: total_line_eval del: dec_val.simps\<close>)

lemma lineTotal_plain2:
  assumes "is_digit d1" "is_digit d2" "is_digit c1" "is_digit c2" "0 < dec_val 0 [d1, d2, c1, c2]"
  shows "lineTotal (''Total: $'' @ [d1, d2] @ ''.'' @ [c1, c2])
           = Some (of_int (dec_val 0 [d1, d2, c1, c2]) / 100)"
proof (rule lineTotal_from_parts [where cap = "[d1, d2] @ ''.'' @ [c1, c2]"])
  show "dec_val 0 [d1, d2, c1, c2] < 1000000"
    using dec_val_bounds [of "[d1, d2, c1, c2]" 0] assms by simp
qed (use assms in \<open>simp_all add: total_line_eval del: dec_val.simps\<close>)

lemma lineTotal_plain3:
  assumes "is_digit d1" "is_digit d2" "is_digit d3" "is_digit c1" "is_digit c2"
    "0 < dec_val 0 [d1, d2, d3, c1, c2]"
  shows "lineTotal (''Total: $'' @ [d1, d2, d3] @ ''.'' @ [c1, c2])
           = Some (of_int (dec_val 0 [d1, d2, d3, c1, c2]) / 100)"
proof (rule lineTotal_from_parts [where cap = "[d1, d2, d3] @ ''.'' @ [c1, c2]"])
  show "dec_val 0 [d1, d2, d3, c1, c2] < 1000000"
    using dec_val_bounds [of "[d1, d2, d3, c1, c2]" 0] assms by simp
qed (use assms in \<open>simp_all add: total_line_eval del: dec_val.simps\<close>)

lemma lineTotal_plain4:
  assumes "is_digit d1" "is_digit d2" "is_digit d3" "is_digit d4" "is_digit c1" "is_digit c2"
    "0 < dec_val 0 [d1, d2, d3, d4, c1, c2]"
  shows "lineTotal (''Total: $'' @ [d1, d2, d3, d4] @ ''.'' @ [c1, c2])
           = Some (of_int (dec_val 0 [d1, d2, d3, d4, c1, c2]) / 100)"
proof (rule lineTotal_from_parts [where cap = "[d1, d2, d3, d4] @ ''.'' @ [c1, c2]"])
  show "dec_val 0 [d1, d2, d3, d4, c1, c2] < 1000000"
    using dec_val_bounds [of "[d1, d2, d3, d4, c1, c2]" 0] assms by simp
qed (use assms in \<open>simp_all add: total_line_eval del: dec_val.simps\<close>)

lemma lineTotal_comma:
  assumes "is_digit d1" "is_digit d2" "is_digit d3" "is_digit d4" "is_digit c1" "is_digit c2"
    "0 < dec_val 0 [d1, d2, d3, d4, c1, c2]"
  shows "lineTotal (''Total: $'' @ [d1] @ '','' @ [d2, d3, d4] @ ''.'' @ [c1, c2])
           = Some (of_int (dec_val 0 [d1, d2, d3, d4, c1, c2]) / 100)"
proof (rule lineTotal_from_parts [where cap = "[d1] @ '','' @ [d2, d3, d4] @ ''.'' @ [c1, c2]"])
  show "dec_val 0 [d1, d2, d3, d4, c1, c2] < 1000000"
    using dec_val_bounds [of "[d1, d2, d3, d4, c1, c2]" 0] assms by simp
qed (use assms in \<open>simp_all add: total_line_eval del: dec_val.simps\<close>)



lemma scanLine_explicitTotal:
  "explicitTotal (scanLine acc l) = (case lineTotal l of Some t \<Rightarrow> Some t | None \<Rightarrow> explicitTotal acc)"
  by (auto simp: scanLine_def lineTotal_def Let_def split: option.splits)

lemma foldl_no_total:
  "list_all (\<lambda>l. lineTotal l = None) ls \<Longrightarrow>
   explicitTotal (foldl scanLine acc ls) = explicitTotal acc"
  by (induction ls arbitrary: acc) (simp_all add: scanLine_explicitTotal)

lemma foldl_last_total:
  assumes "lineTotal l = Some a" "list_all (\<lambda>l. lineTotal l = None) post"
  shows "explicitTotal (foldl scanLine acc (pre @ [l] @ post)) = Some a"
  using assms by (simp add: foldl_no_total scanLine_explicitTotal)

lemma explicit_total_wins:
  "explicitTotal (scanText t) = Some x \<Longrightarrow> extractAmount t = Some x"
  by (simp add: extractAmount_def selectAmount_def)

lemma lineTotal_money:
  assumes "list_all is_digit ds" "1 \<le> length ds" "length ds \<le> 4" "is_digit c1" "is_digit c2"
    and "0 < dec_val 0 (ds @ [c1, c2])"
    and "m = ds @ ''.'' @ [c1, c2]
         \<or> (length ds = 4 \<and> m = [hd ds] @ '','' @ tl ds @ ''.'' @ [c1, c2])"
  shows "lineTotal (''Total: $'' @ m) = Some (of_int (dec_val 0 (ds @ [c1, c2])) / 100)"
proof -
  consider (one) d1 where "ds = [d1]"
    | (two) d1 d2 where "ds = [d1, d2]"
    | (three) d1 d2 d3 where "ds = [d1, d2, d3]"
    | (four) d1 d2 d3 d4 where "ds = [d1, d2, d3, d4]"
  proof -
    obtain d1 r1 where 1: "ds = d1 # r1" using assms(2) by (cases ds) auto
    show ?thesis
    proof (cases r1)
      case Nil
      then show ?thesis using 1 that(1) by simp
    next
      case (Cons d2 r2)
      note 2 = this
      show ?thesis
      proof (cases r2)
        case Nil
        then show ?thesis using 1 2 that(2) by simp
      next
        case (Cons d3 r3)
        note 3 = this
        show ?thesis
        proof (cases r3)
          case Nil
          then show ?thesis using 1 2 3 that(3) by simp
        next
          case (Cons d4 r4)
          then have "r4 = []" using assms(3) 1 2 3 by simp
          then show ?thesis using 1 2 3 Cons that(4) by simp
        qed
      qed
    qed
  qed
  then show ?thesis
  proof cases
    case one
    then show ?thesis using assms lineTotal_plain1 [of d1 c1 c2] by simp
  next
    case two
    then show ?thesis using assms lineTotal_plain2 [of d1 d2 c1 c2] by simp
  next
    case three
    then show ?thesis using assms lineTotal_plain3 [of d1 d2 d3 c1 c2] by simp
  next
    case four
    then show ?thesis
      using assms lineTotal_plain4 [of d1 d2 d3 d4 c1 c2] lineTotal_comma [of d1 d2 d3 d4 c1 c2]
      by auto
  qed
qed

text \<open>
  C3, as the code has it. Let a be an amount above 0 written with one to four integer
  digits, a point and two decimals (or, with four integer digits, as d,ddd.dd), so that a
  is below 10000. If a non-blank line of the text reads "Total: $a" and no later line
  sets an explicit total (no later line that is not skipped has a total label followed by
  a number above 0 and below 10000), the amount returned is exactly a, whatever other
  amounts the text contains. Whenever the scan ends with an explicit total, that total is
  the amount returned.
\<close>

theorem explicit_total_line:
  "(list_all is_digit ds \<and> 1 \<le> length ds \<and> length ds \<le> 4 \<and> is_digit c1 \<and> is_digit c2
     \<and> 0 < dec_val 0 (ds @ [c1, c2])
     \<and> (m = ds @ ''.'' @ [c1, c2]
         \<or> (length ds = 4 \<and> m = [hd ds] @ '','' @ tl ds @ ''.'' @ [c1, c2]))
     \<and> nonBlankLines t = pre @ [''Total: $'' @ m] @ post
     \<and> list_all (\<lambda>l. lineTotal l = None) post
    \<longrightarrow> extractAmount t = Some (of_int (dec_val 0 (ds @ [c1, c2])) / 100)
        \<and> 0 < (of_int (dec_val 0 (ds @ [c1, c2])) / 100 :: rat)
        \<and> (of_int (dec_val 0 (ds @ [c1, c2])) / 100 :: rat) < 10000)
   \<and> (explicitTotal (scanText t) = Some x \<longrightarrow> extractAmount t = Some x)"
proof (intro conjI impI)
  assume h: "list_all is_digit ds \<and> 1 \<le> length ds \<and> length ds \<le> 4 \<and> is_digit c1 \<and> is_digit c2
     \<and> 0 < dec_val 0 (ds @ [c1, c2])
     \<and> (m = ds @ ''.'' @ [c1, c2]
         \<or> (length ds = 4 \<and> m = [hd ds] @ '','' @ tl ds @ ''.'' @ [c1, c2]))
     \<and> nonBlankLines t = pre @ [''Total: $'' @ m] @ post
     \<and> list_all (\<lambda>l. lineTotal l = None) post"
  then have lt: "lineTotal (''Total: $'' @ m) = Some (of_int (dec_val 0 (ds @ [c1, c2])) / 100)"
    using lineTotal_money [of ds c1 c2 m] by blast
  have "explicitTotal (scanText t) = Some (of_int (dec_val 0 (ds @ [c1, c2])) / 100)"
    unfolding scanText_def using h foldl_last_total [OF lt, of post _ pre] by simp
  then show "extractAmount t = Some (of_int (dec_val 0 (ds @ [c1, c2])) / 100)"
    by (rule explicit_total_wins)
  have r: "reasonable (Fin (of_int (dec_val 0 (ds @ [c1, c2])) / 100)) \<noteq> None"
  proof -
    have "list_all is_digit (ds @ [c1, c2])" using h by simp
    from dec_val_bounds [OF this, of 0]
    have "dec_val 0 (ds @ [c1, c2]) < 10 ^ (length ds + 2)" by simp
    also have "\<dots> \<le> 10 ^ 6" using h by (intro power_increasing) auto
    finally show ?thesis using reasonable_money [of "dec_val 0 (ds @ [c1, c2])"] h by simp
  qed
  then show "0 < (of_int (dec_val 0 (ds @ [c1, c2])) / 100 :: rat)"
    and "(of_int (dec_val 0 (ds @ [c1, c2])) / 100 :: rat) < 10000"
    by (auto simp: reasonable_def split: if_splits)
next
  assume "explicitTotal (scanText t) = Some x"
  then show "extractAmount t = Some x" by (rule explicit_total_wins)
qed


end
